theory Spec2Isabelle
  imports Main "HOL-Library.Sublist"
begin

section \<open>The bucket manager of Webinate/users (src/lib/BucketManager.ts)\<close>

text \<open>
  The manager talks to three MongoDB collections (buckets, files, stats) and to Google
  cloud storage through callbacks and promises. The embedding makes this explicit:
  \<^item> the collections and the remote store are fields of a \<open>world\<close> record that every
    operation takes and returns;
  \<^item> every call to a driver is appended to the log \<open>calls\<close>, so the order of the effects
    can be stated;
  \<^item> whether a driver call hands its callback an \<open>err\<close> is the environment's choice: a
    parameter \<open>flt\<close> that sees the log so far and the call being made;
  \<^item> a promise is the value it ends with: resolved, rejected, or never settled;
  \<^item> the deletions that a batch starts together are tasks whose callbacks run in an order
    given as an input, the schedule;
  \<^item> the counters are stored as \<open>int\<close> (byte and call counts); the quota check
    computes on them as the doubles that JavaScript numbers are.
\<close>

subsection \<open>Documents\<close>

text \<open>IBucketEntry, IFileEntry and IStorageStats, with the fields the manager writes.\<close>

record bucket_entry =
  bucket_oid :: nat
  bucket_name :: string
  bucket_identifier :: string
  bucket_created :: int
  bucket_user :: string
  bucket_memoryUsed :: int

record file_entry =
  file_oid :: nat
  file_name :: string
  file_user :: string
  file_identifier :: string
  file_bucketId :: string
  file_bucketName :: string
  file_created :: int
  file_numDownloads :: int
  file_size :: int
  file_isPublic :: bool
  file_publicURL :: string
  file_mimeType :: string

record storage_stats =
  stats_user :: string
  stats_apiCallsAllocated :: int
  stats_memoryAllocated :: int
  stats_apiCallsUsed :: int
  stats_memoryUsed :: int

text \<open>
  An object of the remote store. \<open>obj_metadata\<close> is the custom metadata
  \<open>meta.metadata\<close>: \<open>None\<close> when the object was written without any, \<open>Some b\<close> when
  it carries \<open>encoded: b\<close>.
\<close>

record remote_object =
  obj_bucket :: string
  obj_key :: string
  obj_data :: "nat list"
  obj_metadata :: "bool option"
  obj_public :: bool

subsection \<open>Queries and driver calls\<close>

datatype file_cond = ByIdentifier string | ByBucketId string | ByBucketName string

text \<open>\<open>FileQuery conds u\<close> is the query \<open>{ $or: conds, user: u }\<close> (\<open>user\<close> left out when \<open>None\<close>).\<close>

datatype file_query = FileQuery "file_cond list" "string option"

text \<open>
  The bucket queries the manager builds: \<open>{ identifier }\<close>, \<open>{ user, name }\<close>,
  \<open>{ user }\<close> and \<open>{ $or: [{ name }, ...], user }\<close>.
\<close>

datatype bucket_query =
    BucketByIdentifier string
  | BucketByUserName string string
  | BucketsOfUser string
  | BucketsNamed "string list" string

datatype call =
    StatsFindOne string
  | StatsInc string int int
  | BucketsFindOne bucket_query
  | BucketsFind bucket_query
  | BucketsToArray
  | BucketsInc string int
  | BucketsRemove nat
  | FilesFind file_query
  | FilesToArray
  | FilesRemove nat
  | FilesSetName nat string
  | FilesSetPublic string string bool
  | FilesSave string string
  | GcsBucketDelete string
  | GcsFileDelete string string
  | GcsFileMakePublic string string
  | GcsFileMakePrivate string string
  | GcsFileGetMetadata string string
  | GcsFileWrite string string bool
  | GcsFileRead string string

text \<open>
  The errors the manager rejects with, one constructor for each message of the source;
  \<open>StoreErr c\<close> is the \<open>err\<close> that the driver handed to the callback of the call \<open>c\<close>.
\<close>

datatype error =
    StoreErr call
  | MemoryLimitReached
  | ApiLimitReached
  | NotEnoughApiCalls
  | UserNotFound string
  | BucketNotFound string
  | InvalidBucket
  | FileRemoveFailed string error
  | BucketStorageRemoveFailed error
  | BucketRemoveFailed error
  | FileSaveFailed error
  | UploadCleanupFailed error
  | UploadPartFailed
  | UploadStreamFailed string
  | TypeError string

text \<open>
  How a promise ends. \<open>Unsettled (Some e)\<close>: neither \<open>resolve\<close> nor \<open>reject\<close> is ever
  called, because the exception or rejection \<open>e\<close> escaped unhandled; \<open>Unsettled None\<close>:
  never settled, with nothing thrown.
\<close>

datatype 'a outcome = Resolved 'a | Rejected error | Unsettled "error option"

record world =
  buckets :: "bucket_entry list"
  files :: "file_entry list"
  stats :: "storage_stats list"
  containers :: "string list"
  objects :: "remote_object list"
  calls :: "call list"

type_synonym faults = "call list \<Rightarrow> call \<Rightarrow> bool"

definition record_call :: "call \<Rightarrow> world \<Rightarrow> world" where
  "record_call c w = w\<lparr>calls := calls w @ [c]\<rparr>"

text \<open>
  A driver call that changes the store: it is logged, and its effect happens unless the
  environment makes it fail. The result is the callback's \<open>err\<close>.
\<close>

definition attempt :: "faults \<Rightarrow> call \<Rightarrow> (world \<Rightarrow> world) \<Rightarrow> world \<Rightarrow> error option \<times> world" where
  "attempt flt c eff w =
     (if flt (calls w) c then (Some (StoreErr c), record_call c w)
      else (None, eff (record_call c w)))"

text \<open>MongoDB's \<open>update\<close> without \<open>multi\<close> changes the first document that matches.\<close>

fun update_first :: "('a \<Rightarrow> bool) \<Rightarrow> ('a \<Rightarrow> 'a) \<Rightarrow> 'a list \<Rightarrow> 'a list" where
  "update_first p f [] = []"
| "update_first p f (x # xs) = (if p x then f x # xs else x # update_first p f xs)"

definition find_stats :: "string \<Rightarrow> world \<Rightarrow> storage_stats option" where
  "find_stats user w = find (\<lambda>s. stats_user s = user) (stats w)"

definition find_bucket :: "string \<Rightarrow> world \<Rightarrow> bucket_entry option" where
  "find_bucket ident w = find (\<lambda>b. bucket_identifier b = ident) (buckets w)"

text \<open>\<open>stats.update({ user }, { $inc: { memoryUsed: dm, apiCallsUsed: da } })\<close>\<close>

definition stats_inc :: "string \<Rightarrow> int \<Rightarrow> int \<Rightarrow> world \<Rightarrow> world" where
  "stats_inc user dm da w =
     w\<lparr>stats := update_first (\<lambda>s. stats_user s = user)
        (\<lambda>s. s\<lparr>stats_memoryUsed := stats_memoryUsed s + dm,
                 stats_apiCallsUsed := stats_apiCallsUsed s + da\<rparr>) (stats w)\<rparr>"

text \<open>\<open>bucketCollection.update({ identifier }, { $inc: { memoryUsed: dm } })\<close>\<close>

definition buckets_inc :: "string \<Rightarrow> int \<Rightarrow> world \<Rightarrow> world" where
  "buckets_inc ident dm w =
     w\<lparr>buckets := update_first (\<lambda>b. bucket_identifier b = ident)
        (\<lambda>b. b\<lparr>bucket_memoryUsed := bucket_memoryUsed b + dm\<rparr>) (buckets w)\<rparr>"

subsection \<open>Usage accounting\<close>

text \<open>
  The part of a multipart upload: its declared size and headers. \<open>byteCount\<close> is
  \<open>undefined\<close> when the request declares no length (\<open>part_hasByteCount\<close> is false, and
  \<open>part_byteCount\<close> then means nothing); in an addition \<open>undefined\<close> gives \<open>NaN\<close>.
\<close>

record part =
  part_filename :: string
  part_contentType :: string
  part_byteCount :: int
  part_hasByteCount :: bool

text \<open>
  The stored counters are integers. JavaScript reads them as doubles and computes with
  doubles: \<open>to_double\<close> is the double nearest to an integer (ties to the even
  significand of 53 bits, overflow to an infinity), \<open>js_add\<close> and \<open>js_lt\<close> are \<open>+\<close> and
  \<open><\<close> on these values and on \<open>NaN\<close>.
\<close>

datatype jsnum = NaN | NegInf | Fin int | PosInf

fun double_exponent :: "nat \<Rightarrow> nat \<Rightarrow> int \<Rightarrow> nat option" where
  "double_exponent 0 e x = None"
| "double_exponent (Suc fuel) e x =
     (if x < 2 ^ (53 + e) then Some e else double_exponent fuel (Suc e) x)"

definition exponent_range :: nat where
  "exponent_range = 972"

definition double_overflow :: int where
  "double_overflow = 2 ^ 1024"

definition round_magnitude :: "int \<Rightarrow> int option" where
  "round_magnitude x =
     (case double_exponent exponent_range 0 x of
        None \<Rightarrow> None
      | Some e \<Rightarrow>
          (let q = x div 2 ^ e; r = x mod 2 ^ e;
               q' = (if 2 * r > 2 ^ e \<or> (2 * r = 2 ^ e \<and> odd q) then q + 1 else q) in
           if q' * 2 ^ e \<ge> double_overflow then None else Some (q' * 2 ^ e)))"

definition to_double :: "int \<Rightarrow> jsnum" where
  "to_double x =
     (if x < 0 then (case round_magnitude (- x) of None \<Rightarrow> NegInf | Some y \<Rightarrow> Fin (- y))
      else (case round_magnitude x of None \<Rightarrow> PosInf | Some y \<Rightarrow> Fin y))"

fun js_add :: "jsnum \<Rightarrow> jsnum \<Rightarrow> jsnum" where
  "js_add (Fin a) (Fin b) = to_double (a + b)"
| "js_add NaN y = NaN"
| "js_add x NaN = NaN"
| "js_add PosInf NegInf = NaN"
| "js_add NegInf PosInf = NaN"
| "js_add PosInf y = PosInf"
| "js_add x PosInf = PosInf"
| "js_add NegInf y = NegInf"
| "js_add x NegInf = NegInf"

fun js_lt :: "jsnum \<Rightarrow> jsnum \<Rightarrow> bool" where
  "js_lt (Fin a) (Fin b) = (a < b)"
| "js_lt NaN y = False"
| "js_lt x NaN = False"
| "js_lt x NegInf = False"
| "js_lt PosInf y = False"
| "js_lt NegInf y = True"
| "js_lt x PosInf = True"

definition byteCount :: "part \<Rightarrow> jsnum" where
  "byteCount p = (if part_hasByteCount p then to_double (part_byteCount p) else NaN)"

text \<open>
  \<open>canUpload\<close>: \<open>findOne\<close> on the stats, then the two comparisons. The callback reads
  \<open>result.memoryUsed\<close> without a null check: with no document it throws a TypeError
  inside the driver's callback and the promise is never settled.
\<close>

definition canUpload :: "faults \<Rightarrow> string \<Rightarrow> part \<Rightarrow> world \<Rightarrow> storage_stats outcome \<times> world" where
  "canUpload flt user p w =
     (let c = StatsFindOne user; w1 = record_call c w in
      if flt (calls w) c then (Rejected (StoreErr c), w1)
      else case find_stats user w of
        None \<Rightarrow> (Unsettled (Some (TypeError ''Cannot read property memoryUsed of null'')), w1)
      | Some result \<Rightarrow>
          if js_lt (js_add (to_double (stats_memoryUsed result)) (byteCount p))
                   (to_double (stats_memoryAllocated result)) then
            if js_lt (js_add (to_double (stats_apiCallsUsed result)) (Fin 1))
                     (to_double (stats_apiCallsAllocated result)) then (Resolved result, w1)
            else (Rejected ApiLimitReached, w1)
          else (Rejected MemoryLimitReached, w1))"

definition withinAPILimit :: "faults \<Rightarrow> string \<Rightarrow> world \<Rightarrow> bool outcome \<times> world" where
  "withinAPILimit flt user w =
     (let c = StatsFindOne user; w1 = record_call c w in
      if flt (calls w) c then (Rejected (StoreErr c), w1)
      else case find_stats user w of
        None \<Rightarrow> (Rejected (UserNotFound user), w1)
      | Some result \<Rightarrow>
          if js_lt (js_add (to_double (stats_apiCallsUsed result)) (Fin 1))
                   (to_double (stats_apiCallsAllocated result)) then (Resolved True, w1)
          else (Resolved False, w1))"

definition incrementAPI :: "faults \<Rightarrow> string \<Rightarrow> world \<Rightarrow> bool outcome \<times> world" where
  "incrementAPI flt user w =
     (case attempt flt (StatsInc user 0 1) (stats_inc user 0 1) w of
        (Some err, w1) \<Rightarrow> (Rejected err, w1)
      | (None, w1) \<Rightarrow> (Resolved True, w1))"

subsection \<open>Looking buckets up\<close>

text \<open>\<open>if (user)\<close>: a missing argument and the empty string are both falsy.\<close>

definition truthy :: "string option \<Rightarrow> bool" where
  "truthy u = (case u of None \<Rightarrow> False | Some s \<Rightarrow> s \<noteq> [])"

fun bucket_matches :: "bucket_query \<Rightarrow> bucket_entry \<Rightarrow> bool" where
  "bucket_matches (BucketByIdentifier i) b = (bucket_identifier b = i)"
| "bucket_matches (BucketByUserName u n) b = (bucket_user b = u \<and> bucket_name b = n)"
| "bucket_matches (BucketsOfUser u) b = (bucket_user b = u)"
| "bucket_matches (BucketsNamed ns u) b = (list_ex (\<lambda>n. bucket_name b = n) ns \<and> bucket_user b = u)"

definition getIBucket :: "faults \<Rightarrow> string \<Rightarrow> string option \<Rightarrow> world \<Rightarrow> bucket_entry option outcome \<times> world" where
  "getIBucket flt bucket user w =
     (let searchQuery =
            (case user of
               Some u \<Rightarrow> if truthy user then BucketByUserName u bucket else BucketByIdentifier bucket
             | None \<Rightarrow> BucketByIdentifier bucket);
          c = BucketsFindOne searchQuery; w1 = record_call c w in
      if flt (calls w) c then (Rejected (StoreErr c), w1)
      else (Resolved (find (bucket_matches searchQuery) (buckets w)), w1))"

subsection \<open>Deleting a file\<close>

definition gcs_file_delete :: "string \<Rightarrow> string \<Rightarrow> world \<Rightarrow> world" where
  "gcs_file_delete b k w = w\<lparr>objects := filter (\<lambda>ob. \<not> (obj_bucket ob = b \<and> obj_key ob = k)) (objects w)\<rparr>"

definition files_remove :: "nat \<Rightarrow> world \<Rightarrow> world" where
  "files_remove oid w = w\<lparr>files := filter (\<lambda>f. file_oid f \<noteq> oid) (files w)\<rparr>"

text \<open>
  \<open>deleteFile\<close>: the nested callbacks of the source, each one checking its \<open>err\<close> before
  the next call is made.
\<close>

definition deleteFile :: "faults \<Rightarrow> file_entry \<Rightarrow> world \<Rightarrow> file_entry outcome \<times> world" where
  "deleteFile flt fileEntry w =
     (case getIBucket flt (file_bucketId fileEntry) None w of
        (Rejected err, w1) \<Rightarrow> (Rejected err, w1)
      | (Unsettled x, w1) \<Rightarrow> (Unsettled x, w1)
      | (Resolved None, w1) \<Rightarrow> (Rejected (BucketNotFound (file_bucketName fileEntry)), w1)
      | (Resolved (Some bucketEntry), w1) \<Rightarrow>
         (case attempt flt (GcsFileDelete (bucket_identifier bucketEntry) (file_identifier fileEntry))
                 (gcs_file_delete (bucket_identifier bucketEntry) (file_identifier fileEntry)) w1 of
            (Some err, w2) \<Rightarrow> (Rejected (FileRemoveFailed (file_identifier fileEntry) err), w2)
          | (None, w2) \<Rightarrow>
             (case attempt flt (BucketsInc (bucket_identifier bucketEntry) (- file_size fileEntry))
                     (buckets_inc (bucket_identifier bucketEntry) (- file_size fileEntry)) w2 of
                (Some err, w3) \<Rightarrow> (Rejected (FileRemoveFailed (file_identifier fileEntry) err), w3)
              | (None, w3) \<Rightarrow>
                 (case attempt flt (FilesRemove (file_oid fileEntry)) (files_remove (file_oid fileEntry)) w3 of
                    (Some err, w4) \<Rightarrow> (Rejected (FileRemoveFailed (file_identifier fileEntry) err), w4)
                  | (None, w4) \<Rightarrow>
                     (case attempt flt (StatsInc (bucket_user bucketEntry) (- file_size fileEntry) 1)
                             (stats_inc (bucket_user bucketEntry) (- file_size fileEntry) 1) w4 of
                        (Some err, w5) \<Rightarrow> (Rejected (FileRemoveFailed (file_identifier fileEntry) err), w5)
                      | (None, w5) \<Rightarrow> (Resolved fileEntry, w5))))))"

subsection \<open>Batch removal\<close>

text \<open>
  \<open>removeFiles\<close> and \<open>removeBuckets\<close> start one deletion per matched document and count
  the promises that settle in \<open>attempts\<close>; the handler that brings the count to \<open>l\<close>
  resolves the batch with the identifiers pushed so far. \<open>item_done\<close> is the pair of
  handlers (\<open>then\<close> and \<open>catch\<close>) applied to one settled deletion.
\<close>

record batch =
  attempts :: nat
  removed :: "string list"
  resolved_with :: "string list option"

definition batch0 :: batch where
  "batch0 = \<lparr>attempts = 0, removed = [], resolved_with = None\<rparr>"

definition resolve_batch :: "batch \<Rightarrow> batch" where
  "resolve_batch b = (case resolved_with b of None \<Rightarrow> b\<lparr>resolved_with := Some (removed b)\<rparr> | Some v \<Rightarrow> b)"

definition item_done :: "nat \<Rightarrow> string outcome \<Rightarrow> batch \<Rightarrow> batch" where
  "item_done l r b =
     (case r of
        Resolved ident \<Rightarrow>
          (let b1 = b\<lparr>attempts := attempts b + 1, removed := removed b @ [ident]\<rparr> in
           if attempts b1 = l then resolve_batch b1 else b1)
      | Rejected err \<Rightarrow>
          (let b1 = b\<lparr>attempts := attempts b + 1\<rparr> in
           if attempts b1 = l then resolve_batch b1 else b1)
      | Unsettled x \<Rightarrow> b)"

fun ident_of :: "('a \<Rightarrow> string) \<Rightarrow> 'a outcome \<Rightarrow> string outcome" where
  "ident_of f (Resolved x) = Resolved (f x)"
| "ident_of f (Rejected err) = Rejected err"
| "ident_of f (Unsettled x) = Unsettled x"

text \<open>
  The \<open>for\<close> loop of a batch starts every deletion before any callback runs: each
  deletion makes its first call at once, and from then on the deletions advance one
  callback at a time, in an order that the manager does not control. The embedding makes
  a deletion a task that waits for the callback of the one call it has made, and takes
  the order of the callbacks as an input, the schedule: a list that names, for each
  callback that runs, the task it belongs to. A call is logged when it is made; it is
  served (it fails or takes effect, and a read sees the store) when its callback runs. The
  environment \<open>flt\<close> is asked with the log as it was when the call was made, which is
  kept in the waiting task as the position of the call in the log. A promise whose
  callbacks have not all run when the schedule ends is still pending.
\<close>

datatype file_task =
    FindBucket nat file_entry
  | DeleteObject nat file_entry bucket_entry
  | UpdateBucket nat file_entry bucket_entry
  | RemoveEntry nat file_entry bucket_entry
  | UpdateStats nat file_entry bucket_entry
  | FileDone "file_entry outcome"

text \<open>\<open>deleteFile\<close> as a task: the call made when it starts, and its callbacks one by one.\<close>

definition file_start :: "file_entry \<Rightarrow> world \<Rightarrow> file_task \<times> world" where
  "file_start fileEntry w =
     (FindBucket (length (calls w)) fileEntry,
      record_call (BucketsFindOne (BucketByIdentifier (file_bucketId fileEntry))) w)"

fun file_callback :: "faults \<Rightarrow> file_task \<Rightarrow> world \<Rightarrow> file_task \<times> world" where
  "file_callback flt (FindBucket n fileEntry) w =
     (let c = BucketsFindOne (BucketByIdentifier (file_bucketId fileEntry)) in
      if flt (take n (calls w)) c then (FileDone (Rejected (StoreErr c)), w)
      else case find (bucket_matches (BucketByIdentifier (file_bucketId fileEntry))) (buckets w) of
        None \<Rightarrow> (FileDone (Rejected (BucketNotFound (file_bucketName fileEntry))), w)
      | Some bucketEntry \<Rightarrow>
          (DeleteObject (length (calls w)) fileEntry bucketEntry,
           record_call (GcsFileDelete (bucket_identifier bucketEntry) (file_identifier fileEntry)) w))"
| "file_callback flt (DeleteObject n fileEntry bucketEntry) w =
     (let c = GcsFileDelete (bucket_identifier bucketEntry) (file_identifier fileEntry) in
      if flt (take n (calls w)) c
      then (FileDone (Rejected (FileRemoveFailed (file_identifier fileEntry) (StoreErr c))), w)
      else
        (UpdateBucket (length (calls w)) fileEntry bucketEntry,
         record_call (BucketsInc (bucket_identifier bucketEntry) (- file_size fileEntry))
           (gcs_file_delete (bucket_identifier bucketEntry) (file_identifier fileEntry) w)))"
| "file_callback flt (UpdateBucket n fileEntry bucketEntry) w =
     (let c = BucketsInc (bucket_identifier bucketEntry) (- file_size fileEntry) in
      if flt (take n (calls w)) c
      then (FileDone (Rejected (FileRemoveFailed (file_identifier fileEntry) (StoreErr c))), w)
      else
        (RemoveEntry (length (calls w)) fileEntry bucketEntry,
         record_call (FilesRemove (file_oid fileEntry))
           (buckets_inc (bucket_identifier bucketEntry) (- file_size fileEntry) w)))"
| "file_callback flt (RemoveEntry n fileEntry bucketEntry) w =
     (let c = FilesRemove (file_oid fileEntry) in
      if flt (take n (calls w)) c
      then (FileDone (Rejected (FileRemoveFailed (file_identifier fileEntry) (StoreErr c))), w)
      else
        (UpdateStats (length (calls w)) fileEntry bucketEntry,
         record_call (StatsInc (bucket_user bucketEntry) (- file_size fileEntry) 1)
           (files_remove (file_oid fileEntry) w)))"
| "file_callback flt (UpdateStats n fileEntry bucketEntry) w =
     (let c = StatsInc (bucket_user bucketEntry) (- file_size fileEntry) 1 in
      if flt (take n (calls w)) c
      then (FileDone (Rejected (FileRemoveFailed (file_identifier fileEntry) (StoreErr c))), w)
      else (FileDone (Resolved fileEntry),
            stats_inc (bucket_user bucketEntry) (- file_size fileEntry) 1 w))"
| "file_callback flt (FileDone r) w = (FileDone r, w)"

fun file_done :: "file_task \<Rightarrow> file_entry outcome option" where
  "file_done (FileDone r) = Some r"
| "file_done t = None"

text \<open>The loop that starts the deletions, and the handlers of those already settled.\<close>

fun start_all :: "('a \<Rightarrow> world \<Rightarrow> 't \<times> world) \<Rightarrow> 'a list \<Rightarrow> world \<Rightarrow> 't list \<times> world" where
  "start_all start [] w = ([], w)"
| "start_all start (x # xs) w =
     (case start x w of (t, w1) \<Rightarrow> (case start_all start xs w1 of (ts, w2) \<Rightarrow> (t # ts, w2)))"

definition settle_started :: "('t \<Rightarrow> 'a outcome option) \<Rightarrow> ('a \<Rightarrow> string) \<Rightarrow> nat \<Rightarrow> 't list \<Rightarrow> batch" where
  "settle_started done ident l ts =
     foldl (\<lambda>b t. case done t of Some r \<Rightarrow> item_done l (ident_of ident r) b | None \<Rightarrow> b) batch0 ts"

text \<open>
  One callback of the task \<open>i\<close> of a batch: the task advances, and when this settles it
  its handler runs. A task that has settled, or no task, has no callback.
\<close>

definition batch_callback ::
  "('t \<Rightarrow> 'a outcome option) \<Rightarrow> ('a \<Rightarrow> string) \<Rightarrow> ('t \<Rightarrow> world \<Rightarrow> 't \<times> world)
     \<Rightarrow> nat \<Rightarrow> nat \<Rightarrow> 't list \<Rightarrow> batch \<Rightarrow> world \<Rightarrow> ('t list \<times> batch) \<times> world" where
  "batch_callback done ident callback l i ts b w =
     (if i < length ts then
        (case done (ts ! i) of
           Some r \<Rightarrow> ((ts, b), w)
         | None \<Rightarrow>
            (case callback (ts ! i) w of
               (t, w1) \<Rightarrow>
                 ((ts[i := t],
                   (case done t of Some r \<Rightarrow> item_done l (ident_of ident r) b | None \<Rightarrow> b)), w1)))
      else ((ts, b), w))"

fun run_events :: "('e \<Rightarrow> 's \<Rightarrow> world \<Rightarrow> 's \<times> world) \<Rightarrow> 'e list \<Rightarrow> 's \<Rightarrow> world \<Rightarrow> 's \<times> world" where
  "run_events callback [] s w = (s, w)"
| "run_events callback (e # es) s w = (case callback e s w of (s1, w1) \<Rightarrow> run_events callback es s1 w1)"

fun file_cond_holds :: "file_entry \<Rightarrow> file_cond \<Rightarrow> bool" where
  "file_cond_holds f (ByIdentifier i) = (file_identifier f = i)"
| "file_cond_holds f (ByBucketId i) = (file_bucketId f = i)"
| "file_cond_holds f (ByBucketName n) = (file_bucketName f = n)"

fun file_matches :: "file_query \<Rightarrow> file_entry \<Rightarrow> bool" where
  "file_matches (FileQuery conds u) f =
     (list_ex (file_cond_holds f) conds \<and> (case u of None \<Rightarrow> True | Some x \<Rightarrow> file_user f = x))"

text \<open>
  \<open>removeFiles\<close> as a task. The callback of \<open>toArray\<close> does not look at its \<open>err\<close>: when
  the cursor fails, \<open>fileEntries.length\<close> throws inside the callback and the promise is
  never settled.
\<close>

definition cursor_error :: error where
  "cursor_error = TypeError ''Cannot read property length of undefined''"

datatype files_task =
    FindFiles nat file_query
  | ReadCursor nat file_query
  | DeleteFiles "file_task list" batch nat
  | FilesDone "string list outcome"

definition files_start :: "file_query \<Rightarrow> world \<Rightarrow> files_task \<times> world" where
  "files_start searchQuery w = (FindFiles (length (calls w)) searchQuery, record_call (FilesFind searchQuery) w)"

fun files_callback :: "faults \<Rightarrow> nat \<Rightarrow> files_task \<Rightarrow> world \<Rightarrow> files_task \<times> world" where
  "files_callback flt i (FindFiles n searchQuery) w =
     (if flt (take n (calls w)) (FilesFind searchQuery)
      then (FilesDone (Rejected (StoreErr (FilesFind searchQuery))), w)
      else (ReadCursor (length (calls w)) searchQuery, record_call FilesToArray w))"
| "files_callback flt i (ReadCursor n searchQuery) w =
     (if flt (take n (calls w)) FilesToArray
      then (FilesDone (Unsettled (Some cursor_error)), w)
      else
        (let fileEntries = filter (file_matches searchQuery) (files w); l = length fileEntries in
         case start_all file_start fileEntries w of
           (ts, w1) \<Rightarrow>
             (if l = 0 then (FilesDone (Resolved []), w1)
              else case resolved_with (settle_started file_done file_identifier l ts) of
                Some ids \<Rightarrow> (FilesDone (Resolved ids), w1)
              | None \<Rightarrow> (DeleteFiles ts (settle_started file_done file_identifier l ts) l, w1))))"
| "files_callback flt i (DeleteFiles ts b l) w =
     (case batch_callback file_done file_identifier (file_callback flt) l i ts b w of
        ((ts1, b1), w1) \<Rightarrow>
          (case resolved_with b1 of
             Some ids \<Rightarrow> (FilesDone (Resolved ids), w1)
           | None \<Rightarrow> (DeleteFiles ts1 b1 l, w1)))"
| "files_callback flt i (FilesDone r) w = (FilesDone r, w)"

fun files_outcome :: "files_task \<Rightarrow> string list outcome" where
  "files_outcome (FilesDone r) = r"
| "files_outcome t = Unsettled None"

definition removeFiles :: "faults \<Rightarrow> nat list \<Rightarrow> file_query \<Rightarrow> world \<Rightarrow> string list outcome \<times> world" where
  "removeFiles flt sched searchQuery w =
     (case files_start searchQuery w of
        (t, w1) \<Rightarrow> (case run_events (files_callback flt) sched t w1 of (t1, w2) \<Rightarrow> (files_outcome t1, w2)))"

text \<open>The value a batch promise resolves with: \<open>Promise.resolve()\<close> gives \<open>undefined\<close>.\<close>

datatype js_ids = JsUndefined | JsArray "string list"

fun as_array :: "string list outcome \<Rightarrow> js_ids outcome" where
  "as_array (Resolved ids) = Resolved (JsArray ids)"
| "as_array (Rejected err) = Rejected err"
| "as_array (Unsettled x) = Unsettled x"

definition removeFilesById ::
  "faults \<Rightarrow> nat list \<Rightarrow> string list \<Rightarrow> string option \<Rightarrow> world \<Rightarrow> js_ids outcome \<times> world" where
  "removeFilesById flt sched fileIDs user w =
     (if length fileIDs = 0 then (Resolved JsUndefined, w)
      else
        let searchQuery = FileQuery (map ByIdentifier fileIDs) (if truthy user then user else None) in
        case removeFiles flt sched searchQuery w of (r, w1) \<Rightarrow> (as_array r, w1))"

text \<open>
  \<open>!bucket || bucket.trim() == ""\<close>: nothing but white space. A \<open>char\<close> stands for a
  code unit below 256; of these, \<open>String.prototype.trim\<close> strips the tab, the line feed,
  the vertical tab, the form feed, the carriage return, the space and the no-break space
  (U+00A0).
\<close>

definition is_space :: "char \<Rightarrow> bool" where
  "is_space ch = (ch \<in> set [CHR '' '', CHR 0x09, CHR 0x0A, CHR 0x0B, CHR 0x0C, CHR 0x0D, CHR 0xA0])"

definition blank :: "string \<Rightarrow> bool" where
  "blank s = (s = [] \<or> list_all is_space s)"

definition files_of_bucket :: "string \<Rightarrow> file_query" where
  "files_of_bucket bucket = FileQuery [ByBucketId bucket, ByBucketName bucket] None"

definition files_start_by_bucket :: "string \<Rightarrow> world \<Rightarrow> files_task \<times> world" where
  "files_start_by_bucket bucket w =
     (if blank bucket then (FilesDone (Rejected InvalidBucket), w)
      else files_start (files_of_bucket bucket) w)"

definition removeFilesByBucket :: "faults \<Rightarrow> nat list \<Rightarrow> string \<Rightarrow> world \<Rightarrow> string list outcome \<times> world" where
  "removeFilesByBucket flt sched bucket w =
     (case files_start_by_bucket bucket w of
        (t, w1) \<Rightarrow> (case run_events (files_callback flt) sched t w1 of (t1, w2) \<Rightarrow> (files_outcome t1, w2)))"

subsection \<open>Deleting buckets\<close>

definition gcs_bucket_delete :: "string \<Rightarrow> world \<Rightarrow> world" where
  "gcs_bucket_delete b w = w\<lparr>containers := filter (\<lambda>x. x \<noteq> b) (containers w)\<rparr>"

definition buckets_remove :: "nat \<Rightarrow> world \<Rightarrow> world" where
  "buckets_remove oid w = w\<lparr>buckets := filter (\<lambda>b. bucket_oid b \<noteq> oid) (buckets w)\<rparr>"

text \<open>
  \<open>deleteBucket\<close> as a task: it waits for the batch of its files, then for the container,
  the bucket entry and the counter. The callbacks of \<open>bucketCollection.remove\<close> and of
  \<open>stats.update\<close> receive an \<open>err\<close> and do not read it. \<open>after_files\<close> is the pair of
  handlers on the promise of \<open>removeFilesByBucket\<close>; when that promise is never settled,
  neither handler runs and \<open>deleteBucket\<close> is never settled either.
\<close>

datatype bucket_task =
    RemoveFiles bucket_entry files_task
  | DeleteContainer nat bucket_entry
  | RemoveBucketEntry nat bucket_entry
  | CountCall nat bucket_entry
  | BucketDone "bucket_entry outcome"

fun after_files :: "bucket_entry \<Rightarrow> files_task \<Rightarrow> world \<Rightarrow> bucket_task \<times> world" where
  "after_files bucketEntry (FilesDone (Resolved fs)) w =
     (DeleteContainer (length (calls w)) bucketEntry,
      record_call (GcsBucketDelete (bucket_identifier bucketEntry)) w)"
| "after_files bucketEntry (FilesDone (Rejected err)) w = (BucketDone (Rejected (BucketRemoveFailed err)), w)"
| "after_files bucketEntry (FilesDone (Unsettled x)) w = (BucketDone (Unsettled x), w)"
| "after_files bucketEntry t w = (RemoveFiles bucketEntry t, w)"

definition bucket_start :: "bucket_entry \<Rightarrow> world \<Rightarrow> bucket_task \<times> world" where
  "bucket_start bucketEntry w =
     (case files_start_by_bucket (bucket_identifier bucketEntry) w of
        (t, w1) \<Rightarrow> after_files bucketEntry t w1)"

fun bucket_callback :: "faults \<Rightarrow> nat \<Rightarrow> bucket_task \<Rightarrow> world \<Rightarrow> bucket_task \<times> world" where
  "bucket_callback flt i (RemoveFiles bucketEntry t) w =
     (case files_callback flt i t w of (t1, w1) \<Rightarrow> after_files bucketEntry t1 w1)"
| "bucket_callback flt i (DeleteContainer n bucketEntry) w =
     (let c = GcsBucketDelete (bucket_identifier bucketEntry) in
      if flt (take n (calls w)) c
      then (BucketDone (Rejected (BucketStorageRemoveFailed (StoreErr c))), w)
      else
        (RemoveBucketEntry (length (calls w)) bucketEntry,
         record_call (BucketsRemove (bucket_oid bucketEntry))
           (gcs_bucket_delete (bucket_identifier bucketEntry) w)))"
| "bucket_callback flt i (RemoveBucketEntry n bucketEntry) w =
     (let w1 = (if flt (take n (calls w)) (BucketsRemove (bucket_oid bucketEntry)) then w
                else buckets_remove (bucket_oid bucketEntry) w) in
      (CountCall (length (calls w1)) bucketEntry, record_call (StatsInc (bucket_user bucketEntry) 0 1) w1))"
| "bucket_callback flt i (CountCall n bucketEntry) w =
     (BucketDone (Resolved bucketEntry),
      if flt (take n (calls w)) (StatsInc (bucket_user bucketEntry) 0 1) then w
      else stats_inc (bucket_user bucketEntry) 0 1 w)"
| "bucket_callback flt i (BucketDone r) w = (BucketDone r, w)"

fun bucket_done :: "bucket_task \<Rightarrow> bucket_entry outcome option" where
  "bucket_done (BucketDone r) = Some r"
| "bucket_done t = None"




text \<open>
  \<open>removeBuckets\<close> as a task; a callback of the batch names the bucket it belongs to
  and, among the files of that bucket, the file.
\<close>

datatype buckets_task =
    FindBuckets nat bucket_query
  | ReadBuckets nat bucket_query
  | DeleteBuckets "bucket_task list" batch nat
  | BucketsDone "string list outcome"

definition buckets_start :: "bucket_query \<Rightarrow> world \<Rightarrow> buckets_task \<times> world" where
  "buckets_start searchQuery w =
     (FindBuckets (length (calls w)) searchQuery, record_call (BucketsFind searchQuery) w)"

fun buckets_callback :: "faults \<Rightarrow> nat \<times> nat \<Rightarrow> buckets_task \<Rightarrow> world \<Rightarrow> buckets_task \<times> world" where
  "buckets_callback flt e (FindBuckets n searchQuery) w =
     (if flt (take n (calls w)) (BucketsFind searchQuery)
      then (BucketsDone (Rejected (StoreErr (BucketsFind searchQuery))), w)
      else (ReadBuckets (length (calls w)) searchQuery, record_call BucketsToArray w))"
| "buckets_callback flt e (ReadBuckets n searchQuery) w =
     (if flt (take n (calls w)) BucketsToArray
      then (BucketsDone (Rejected (StoreErr BucketsToArray)), w)
      else
        (let bs = filter (bucket_matches searchQuery) (buckets w); l = length bs in
         case start_all bucket_start bs w of
           (ts, w1) \<Rightarrow>
             (if l = 0 then (BucketsDone (Resolved []), w1)
              else case resolved_with (settle_started bucket_done bucket_identifier l ts) of
                Some ids \<Rightarrow> (BucketsDone (Resolved ids), w1)
              | None \<Rightarrow> (DeleteBuckets ts (settle_started bucket_done bucket_identifier l ts) l, w1))))"
| "buckets_callback flt e (DeleteBuckets ts b l) w =
     (case batch_callback bucket_done bucket_identifier (bucket_callback flt (snd e)) l (fst e) ts b w of
        ((ts1, b1), w1) \<Rightarrow>
          (case resolved_with b1 of
             Some ids \<Rightarrow> (BucketsDone (Resolved ids), w1)
           | None \<Rightarrow> (DeleteBuckets ts1 b1 l, w1)))"
| "buckets_callback flt e (BucketsDone r) w = (BucketsDone r, w)"

fun buckets_outcome :: "buckets_task \<Rightarrow> string list outcome" where
  "buckets_outcome (BucketsDone r) = r"
| "buckets_outcome t = Unsettled None"

definition removeBuckets ::
  "faults \<Rightarrow> (nat \<times> nat) list \<Rightarrow> bucket_query \<Rightarrow> world \<Rightarrow> string list outcome \<times> world" where
  "removeBuckets flt sched searchQuery w =
     (case buckets_start searchQuery w of
        (t, w1) \<Rightarrow> (case run_events (buckets_callback flt) sched t w1 of (t1, w2) \<Rightarrow> (buckets_outcome t1, w2)))"

definition removeBucketsByName ::
  "faults \<Rightarrow> (nat \<times> nat) list \<Rightarrow> string list \<Rightarrow> string \<Rightarrow> world \<Rightarrow> js_ids outcome \<times> world" where
  "removeBucketsByName flt sched bs user w =
     (if length bs = 0 then (Resolved JsUndefined, w)
      else case removeBuckets flt sched (BucketsNamed bs user) w of (r, w1) \<Rightarrow> (as_array r, w1))"

definition removeBucketsByUser ::
  "faults \<Rightarrow> (nat \<times> nat) list \<Rightarrow> string \<Rightarrow> world \<Rightarrow> string list outcome \<times> world" where
  "removeBucketsByUser flt sched user w = removeBuckets flt sched (BucketsOfUser user) w"

subsection \<open>Publishing and renaming\<close>

definition set_public :: "string \<Rightarrow> string \<Rightarrow> bool \<Rightarrow> world \<Rightarrow> world" where
  "set_public b k v w =
     w\<lparr>objects := map (\<lambda>ob. if obj_bucket ob = b \<and> obj_key ob = k then ob\<lparr>obj_public := v\<rparr> else ob) (objects w)\<rparr>"

definition files_set_public :: "string \<Rightarrow> string \<Rightarrow> bool \<Rightarrow> world \<Rightarrow> world" where
  "files_set_public b k v w =
     w\<lparr>files := update_first (\<lambda>f. file_bucketId f = b \<and> file_identifier f = k)
        (\<lambda>f. f\<lparr>file_isPublic := v\<rparr>) (files w)\<rparr>"

definition files_set_name :: "nat \<Rightarrow> string \<Rightarrow> world \<Rightarrow> world" where
  "files_set_name oid n w =
     w\<lparr>files := update_first (\<lambda>f. file_oid f = oid) (\<lambda>f. f\<lparr>file_name := n\<rparr>) (files w)\<rparr>"

text \<open>
  The handler \<open>catch(function (err) { return reject(new err); })\<close> of \<open>makeFilePublic\<close>
  and \<open>makeFilePrivate\<close>. What the chain rejects with is an Error object (or the
  driver's \<open>err\<close>), never a constructor, so evaluating the argument \<open>new err\<close> throws a
  TypeError before \<open>reject\<close> is called: the promise stays unsettled.
\<close>

definition catch_reject_new :: "error \<Rightarrow> 'a outcome" where
  "catch_reject_new err = Unsettled (Some (TypeError ''err is not a constructor''))"

definition makeFilePublic :: "faults \<Rightarrow> file_entry \<Rightarrow> world \<Rightarrow> file_entry outcome \<times> world" where
  "makeFilePublic flt file w =
     (case withinAPILimit flt (file_user file) w of
        (Rejected err, w1) \<Rightarrow> (catch_reject_new err, w1)
      | (Unsettled x, w1) \<Rightarrow> (Unsettled x, w1)
      | (Resolved val, w1) \<Rightarrow>
          if \<not> val then (catch_reject_new NotEnoughApiCalls, w1)
          else
            (case incrementAPI flt (file_user file) w1 of
               (Rejected err, w2) \<Rightarrow> (catch_reject_new err, w2)
             | (Unsettled x, w2) \<Rightarrow> (Unsettled x, w2)
             | (Resolved ok, w2) \<Rightarrow>
                (case attempt flt (GcsFileMakePublic (file_bucketId file) (file_identifier file))
                        (set_public (file_bucketId file) (file_identifier file) True) w2 of
                   (Some err, w3) \<Rightarrow> (Rejected err, w3)
                 | (None, w3) \<Rightarrow>
                    (case attempt flt (FilesSetPublic (file_bucketId file) (file_identifier file) True)
                            (files_set_public (file_bucketId file) (file_identifier file) True) w3 of
                       (Some err, w4) \<Rightarrow> (Rejected err, w4)
                     | (None, w4) \<Rightarrow> (Resolved file, w4)))))"

definition makeFilePrivate :: "faults \<Rightarrow> file_entry \<Rightarrow> world \<Rightarrow> file_entry outcome \<times> world" where
  "makeFilePrivate flt file w =
     (case withinAPILimit flt (file_user file) w of
        (Rejected err, w1) \<Rightarrow> (catch_reject_new err, w1)
      | (Unsettled x, w1) \<Rightarrow> (Unsettled x, w1)
      | (Resolved val, w1) \<Rightarrow>
          if \<not> val then (catch_reject_new NotEnoughApiCalls, w1)
          else
            (case incrementAPI flt (file_user file) w1 of
               (Rejected err, w2) \<Rightarrow> (catch_reject_new err, w2)
             | (Unsettled x, w2) \<Rightarrow> (Unsettled x, w2)
             | (Resolved ok, w2) \<Rightarrow>
                (case attempt flt (GcsFileMakePrivate (file_bucketId file) (file_identifier file))
                        (set_public (file_bucketId file) (file_identifier file) False) w2 of
                   (Some err, w3) \<Rightarrow> (Rejected err, w3)
                 | (None, w3) \<Rightarrow>
                    (case attempt flt (FilesSetPublic (file_bucketId file) (file_identifier file) False)
                            (files_set_public (file_bucketId file) (file_identifier file) False) w3 of
                       (Some err, w4) \<Rightarrow> (Rejected err, w4)
                     | (None, w4) \<Rightarrow> (Resolved file, w4)))))"

text \<open>
  \<open>renameFile\<close>: the promise of \<open>incrementAPI\<close> has a \<open>then\<close> and no \<open>catch\<close>; when it
  rejects, nothing settles the promise that \<open>renameFile\<close> returned.
\<close>

definition renameFile :: "faults \<Rightarrow> file_entry \<Rightarrow> string \<Rightarrow> world \<Rightarrow> file_entry outcome \<times> world" where
  "renameFile flt file name w =
     (case incrementAPI flt (file_user file) w of
        (Rejected err, w1) \<Rightarrow> (Unsettled (Some err), w1)
      | (Unsettled x, w1) \<Rightarrow> (Unsettled x, w1)
      | (Resolved ok, w1) \<Rightarrow>
         (case attempt flt (FilesSetName (file_oid file) name) (files_set_name (file_oid file) name) w1 of
            (Some err, w2) \<Rightarrow> (Rejected err, w2)
          | (None, w2) \<Rightarrow> (Resolved file, w2)))"

subsection \<open>Uploading\<close>

text \<open>
  What the manager cannot decide itself is an input of an upload: the random file id, the
  clock, the verdict of \<open>compressible\<close> on the content type, and how the piped stream
  ends (\<open>complete\<close> after the part has delivered the bytes \<open>bs\<close>, an \<open>error\<close> event of
  the part, or an \<open>error\<close> event of the write stream). A compressible part is piped
  through \<open>_zipper\<close>, the one gzip stream that the manager creates in its constructor and
  shares between all uploads: what that stream emits during this upload is an input too
  (\<open>up_zipped\<close>), not a function of the bytes of the part.
\<close>

datatype upload_run = Completed "nat list" | PartError | StreamError

record upload_env =
  up_fileID :: string
  up_now :: int
  up_compressible :: "string \<Rightarrow> bool"
  up_zipped :: "nat list"
  up_run :: upload_run

definition fresh_oid :: "file_entry list \<Rightarrow> nat" where
  "fresh_oid fs = Suc (foldr max (map file_oid fs) 0)"

definition files_save :: "file_entry \<Rightarrow> world \<Rightarrow> world" where
  "files_save entry w = w\<lparr>files := files w @ [entry\<lparr>file_oid := fresh_oid (files w)\<rparr>]\<rparr>"

definition registerFile ::
  "faults \<Rightarrow> int \<Rightarrow> string \<Rightarrow> bucket_entry \<Rightarrow> part \<Rightarrow> string \<Rightarrow> bool \<Rightarrow> world \<Rightarrow> file_entry outcome \<times> world" where
  "registerFile flt now fileID bucket p user isPublic w =
     (let entry = \<lparr>file_oid = fresh_oid (files w),
                   file_name = part_filename p,
                   file_user = user,
                   file_identifier = fileID,
                   file_bucketId = bucket_identifier bucket,
                   file_bucketName = bucket_name bucket,
                   file_created = now,
                   file_numDownloads = 0,
                   file_size = part_byteCount p,
                   file_isPublic = isPublic,
                   file_publicURL = ''https://storage.googleapis.com/'' @ bucket_identifier bucket @ ''/'' @ fileID,
                   file_mimeType = part_contentType p\<rparr> in
      case attempt flt (FilesSave (bucket_identifier bucket) fileID) (files_save entry) w of
        (Some err, w1) \<Rightarrow> (Rejected (FileSaveFailed err), w1)
      | (None, w1) \<Rightarrow> (Resolved entry, w1))"

definition gcs_write :: "string \<Rightarrow> string \<Rightarrow> nat list \<Rightarrow> bool option \<Rightarrow> world \<Rightarrow> world" where
  "gcs_write b k bs md w =
     w\<lparr>objects := objects w @
        [\<lparr>obj_bucket = b, obj_key = k, obj_data = bs, obj_metadata = md, obj_public = False\<rparr>]\<rparr>"

text \<open>
  The handler of \<open>complete\<close>: the two \<open>$inc\<close> updates use \<open>part.byteCount\<close>, and their
  callbacks do not read \<open>err\<close>.
\<close>

definition upload_complete ::
  "faults \<Rightarrow> upload_env \<Rightarrow> part \<Rightarrow> bucket_entry \<Rightarrow> string \<Rightarrow> bool \<Rightarrow> world \<Rightarrow> file_entry outcome \<times> world" where
  "upload_complete flt ue p bucketEntry user makePublic w =
     (case attempt flt (BucketsInc (bucket_identifier bucketEntry) (part_byteCount p))
             (buckets_inc (bucket_identifier bucketEntry) (part_byteCount p)) w of
        (err1, w1) \<Rightarrow>
         (case attempt flt (StatsInc user (part_byteCount p) 1) (stats_inc user (part_byteCount p) 1) w1 of
            (err2, w2) \<Rightarrow>
             (case registerFile flt (up_now ue) (up_fileID ue) bucketEntry p user makePublic w2 of
                (Rejected err, w3) \<Rightarrow> (Rejected err, w3)
              | (Unsettled x, w3) \<Rightarrow> (Unsettled x, w3)
              | (Resolved file, w3) \<Rightarrow>
                  if makePublic then
                    (case attempt flt (GcsFileMakePublic (bucket_identifier bucketEntry) (up_fileID ue))
                            (set_public (bucket_identifier bucketEntry) (up_fileID ue) True) w3 of
                       (Some err, w4) \<Rightarrow> (Rejected err, w4)
                     | (None, w4) \<Rightarrow> (Resolved file, w4))
                  else (Resolved file, w3))))"

definition uploadStream ::
  "faults \<Rightarrow> upload_env \<Rightarrow> part \<Rightarrow> bucket_entry \<Rightarrow> string \<Rightarrow> bool \<Rightarrow> world \<Rightarrow> file_entry outcome \<times> world" where
  "uploadStream flt ue p bucketEntry user makePublic w =
     (case canUpload flt user p w of
        (Rejected err, w1) \<Rightarrow> (Rejected err, w1)
      | (Unsettled x, w1) \<Rightarrow> (Unsettled x, w1)
      | (Resolved storageStats, w1) \<Rightarrow>
         (let zipped = up_compressible ue (part_contentType p);
              w2 = record_call (GcsFileWrite (bucket_identifier bucketEntry) (up_fileID ue) zipped) w1 in
          case up_run ue of
            PartError \<Rightarrow>
              (case attempt flt (GcsFileDelete (bucket_identifier bucketEntry) (up_fileID ue))
                      (gcs_file_delete (bucket_identifier bucketEntry) (up_fileID ue)) w2 of
                 (Some bucketErr, w3) \<Rightarrow> (Rejected (UploadCleanupFailed bucketErr), w3)
               | (None, w3) \<Rightarrow> (Rejected UploadPartFailed, w3))
          | StreamError \<Rightarrow> (Rejected (UploadStreamFailed (part_filename p)), w2)
          | Completed bs \<Rightarrow>
              upload_complete flt ue p bucketEntry user makePublic
                (gcs_write (bucket_identifier bucketEntry) (up_fileID ue)
                   (if zipped then up_zipped ue else bs) (if zipped then Some True else None) w2)))"

subsection \<open>Downloading\<close>

text \<open>
  \<open>acceptEncoding.match(/\bgzip\b/)\<close>: the word occurs with no word character
  (\<open>[A-Za-z0-9_]\<close>) right before or right after it.
\<close>

definition is_word_char :: "char \<Rightarrow> bool" where
  "is_word_char ch =
     (ch \<in> set ''abcdefghijklmnopqrstuvwxyzABCDEFGHIJKLMNOPQRSTUVWXYZ0123456789_'')"

fun is_prefix :: "string \<Rightarrow> string \<Rightarrow> bool" where
  "is_prefix [] ys = True"
| "is_prefix (x # xs) [] = False"
| "is_prefix (x # xs) (y # ys) = (x = y \<and> is_prefix xs ys)"

definition word_here :: "string \<Rightarrow> string \<Rightarrow> bool" where
  "word_here wd s =
     (is_prefix wd s \<and> (case drop (length wd) s of [] \<Rightarrow> True | ch # rest \<Rightarrow> \<not> is_word_char ch))"

fun has_word :: "string \<Rightarrow> bool \<Rightarrow> string \<Rightarrow> bool" where
  "has_word wd boundary [] = False"
| "has_word wd boundary (ch # s) =
     ((boundary \<and> word_here wd (ch # s)) \<or> has_word wd (\<not> is_word_char ch) s)"

definition accepts :: "string \<Rightarrow> string \<Rightarrow> bool" where
  "accepts wd acceptEncoding = has_word wd True acceptEncoding"

text \<open>
  The transform streams a download pipes through: \<open>_unzipper\<close> and \<open>_deflater\<close>, each
  one stream object that the manager creates in its constructor and shares between all
  downloads. The embedding records which of them the read stream is piped through and
  in which order; it does not say what bytes they emit.
\<close>

datatype stage = Unzipper | Deflater

text \<open>
  What is done with the response: \<open>status(500).send(err.toString())\<close>, or the read
  stream of the object piped into it through the listed stages (none: the stored bytes
  go to the response as they are), with the \<open>content-encoding\<close> header that was set, if
  any.
\<close>

datatype response = SendError nat error | Piped "string option" "stage list"

definition find_object :: "string \<Rightarrow> string \<Rightarrow> world \<Rightarrow> remote_object option" where
  "find_object b k w = find (\<lambda>ob. obj_bucket ob = b \<and> obj_key ob = k) (objects w)"

definition downloadFile :: "faults \<Rightarrow> string option \<Rightarrow> file_entry \<Rightarrow> world \<Rightarrow> response \<times> world" where
  "downloadFile flt acceptHeader file w =
     (let c = GcsFileGetMetadata (file_bucketId file) (file_identifier file); w1 = record_call c w in
      case (if flt (calls w) c then None else find_object (file_bucketId file) (file_identifier file) w) of
        None \<Rightarrow> (SendError 500 (StoreErr c), w1)
      | Some ob \<Rightarrow>
         (let acceptEncoding = (case acceptHeader of None \<Rightarrow> [] | Some h \<Rightarrow> h);
              w2 = record_call (GcsFileRead (file_bucketId file) (file_identifier file)) w1;
              encoded = (case obj_metadata ob of None \<Rightarrow> False | Some e \<Rightarrow> e) in
          if accepts ''gzip'' acceptEncoding then
            (if encoded then (Piped (Some ''gzip'') [], w2)
             else (Piped None [], w2))
          else if accepts ''deflate'' acceptEncoding then
            (if encoded then (Piped (Some ''deflate'') [Unzipper, Deflater], w2)
             else (Piped (Some ''deflate'') [Deflater], w2))
          else
            (if encoded then (Piped None [Unzipper], w2)
             else (Piped None [], w2))))"

subsection \<open>The specification's words, for comparison\<close>

text \<open>
  A sequence of store calls performed in order: the first call that fails ends the
  sequence and is reported; the effects of the calls before it stay.
\<close>

fun run_steps :: "faults \<Rightarrow> (call \<times> (world \<Rightarrow> world)) list \<Rightarrow> world \<Rightarrow> error option \<times> world" where
  "run_steps flt [] w = (None, w)"
| "run_steps flt ((c, eff) # rest) w =
     (if flt (calls w) c then (Some (StoreErr c), record_call c w)
      else run_steps flt rest (eff (record_call c w)))"

text \<open>
  The order the specification gives for deleting a file: the remote object, the bucket's
  \<open>memoryUsed\<close>, the file entry, the owner's stats.
\<close>

definition spec_deleteFile_steps :: "bucket_entry \<Rightarrow> file_entry \<Rightarrow> (call \<times> (world \<Rightarrow> world)) list" where
  "spec_deleteFile_steps b f =
     [(GcsFileDelete (bucket_identifier b) (file_identifier f), gcs_file_delete (bucket_identifier b) (file_identifier f)),
      (BucketsInc (bucket_identifier b) (- file_size f), buckets_inc (bucket_identifier b) (- file_size f)),
      (FilesRemove (file_oid f), files_remove (file_oid f)),
      (StatsInc (bucket_user b) (- file_size f) 1, stats_inc (bucket_user b) (- file_size f) 1)]"

definition spec_deleteFile_result :: "file_entry \<Rightarrow> error option \<times> world \<Rightarrow> file_entry outcome \<times> world" where
  "spec_deleteFile_result f r =
     (case r of
        (None, w) \<Rightarrow> (Resolved f, w)
      | (Some err, w) \<Rightarrow> (Rejected (FileRemoveFailed (file_identifier f) err), w))"

text \<open>The decision table of the download responder, row by row.\<close>

datatype client = AcceptsGzip | AcceptsDeflate | AcceptsNeither

definition client_of :: "string \<Rightarrow> client" where
  "client_of acceptEncoding =
     (if accepts ''gzip'' acceptEncoding then AcceptsGzip
      else if accepts ''deflate'' acceptEncoding then AcceptsDeflate
      else AcceptsNeither)"

fun spec_download_table :: "bool \<Rightarrow> client \<Rightarrow> string option \<times> stage list" where
  "spec_download_table True AcceptsGzip = (Some ''gzip'', [])"
| "spec_download_table True AcceptsDeflate = (Some ''deflate'', [Unzipper, Deflater])"
| "spec_download_table True AcceptsNeither = (None, [Unzipper])"
| "spec_download_table False AcceptsGzip = (None, [])"
| "spec_download_table False AcceptsDeflate = (Some ''deflate'', [Deflater])"
| "spec_download_table False AcceptsNeither = (None, [])"

fun stages_of :: "response \<Rightarrow> stage list" where
  "stages_of (SendError code err) = []"
| "stages_of (Piped header stages) = stages"


text \<open>Counts for which double arithmetic is exact.\<close>

definition safe_count :: "int \<Rightarrow> bool" where
  "safe_count x = (0 \<le> x \<and> x \<le> 2 ^ 53)"

subsection \<open>Traces of a bucket deletion\<close>










text \<open>
  A deletion of a bucket that waits for, or has been left by, a cursor over its files
  that fails; and \<open>removeBuckets\<close> while every deletion it started is such a one.
\<close>

fun stuck :: "bucket_task \<Rightarrow> bool" where
  "stuck (RemoveFiles b (FindFiles n q)) = True"
| "stuck (RemoveFiles b (ReadCursor n q)) = True"
| "stuck (BucketDone (Unsettled x)) = True"
| "stuck t = False"

fun cursor_inv :: "bucket_query \<Rightarrow> world \<Rightarrow> buckets_task \<Rightarrow> world \<Rightarrow> bool" where
  "cursor_inv q w0 (FindBuckets n q') w = (q' = q \<and> buckets w = buckets w0)"
| "cursor_inv q w0 (ReadBuckets n q') w = (q' = q \<and> buckets w = buckets w0)"
| "cursor_inv q w0 (DeleteBuckets ts b l) w = (list_all stuck ts \<and> b = batch0)"
| "cursor_inv q w0 (BucketsDone r) w = False"

subsection \<open>Example stores\<close>

definition no_faults :: faults where
  "no_faults h c = False"

definition ann_stats :: storage_stats where
  "ann_stats = \<lparr>stats_user = ''ann'', stats_apiCallsAllocated = 20000, stats_memoryAllocated = 500,
                 stats_apiCallsUsed = 7, stats_memoryUsed = 100\<rparr>"

definition ann_bucket :: bucket_entry where
  "ann_bucket = \<lparr>bucket_oid = 1, bucket_name = ''photos'', bucket_identifier = ''webinate-bucket-a'',
                  bucket_created = 0, bucket_user = ''ann'', bucket_memoryUsed = 100\<rparr>"

definition ann_file :: file_entry where
  "ann_file = \<lparr>file_oid = 1, file_name = ''cat.txt'', file_user = ''ann'', file_identifier = ''f1'',
                file_bucketId = ''webinate-bucket-a'', file_bucketName = ''photos'', file_created = 0,
                file_numDownloads = 0, file_size = 100, file_isPublic = False,
                file_publicURL = ''https://storage.googleapis.com/webinate-bucket-a/f1'',
                file_mimeType = ''text/plain''\<rparr>"

definition ann_object :: remote_object where
  "ann_object = \<lparr>obj_bucket = ''webinate-bucket-a'', obj_key = ''f1'', obj_data = [1, 2, 3],
                  obj_metadata = Some True, obj_public = False\<rparr>"

definition ann_world :: world where
  "ann_world = \<lparr>buckets = [ann_bucket], files = [ann_file], stats = [ann_stats],
                 containers = [''webinate-bucket-a''], objects = [ann_object], calls = []\<rparr>"

definition small_part :: part where
  "small_part = \<lparr>part_filename = ''dog.png'', part_contentType = ''image/png'', part_byteCount = 10,
                  part_hasByteCount = True\<rparr>"

definition fails_on :: "call \<Rightarrow> faults" where
  "fails_on c0 h c = (c = c0)"

definition full_stats :: storage_stats where
  "full_stats = ann_stats\<lparr>stats_apiCallsUsed := 19999\<rparr>"

definition three_bytes :: upload_env where
  "three_bytes = \<lparr>up_fileID = ''f2'', up_now = 0, up_compressible = (\<lambda>t. False),
                   up_zipped = [], up_run = Completed [1, 2, 3]\<rparr>"





text \<open>A user whose counters are beyond \<open>2 ^ 53\<close>, and a part of three bytes.\<close>

definition huge_stats :: storage_stats where
  "huge_stats = \<lparr>stats_user = ''ann'', stats_apiCallsAllocated = 20000,
                  stats_memoryAllocated = 9007199254740996, stats_apiCallsUsed = 7,
                  stats_memoryUsed = 9007199254740992\<rparr>"

definition tiny_part :: part where
  "tiny_part = small_part\<lparr>part_byteCount := 3\<rparr>"

section \<open>Verified properties\<close>

subsection \<open>Double arithmetic on counts\<close>

lemma double_exponent_Some:
  "double_exponent fuel e x = Some e' \<Longrightarrow>
     e \<le> e' \<and> x < 2 ^ (53 + e') \<and> (e < e' \<longrightarrow> 2 ^ (52 + e') \<le> x)"
proof (induction fuel arbitrary: e)
  case 0
  then show ?case by simp
next
  case (Suc fuel)
  show ?case
  proof (cases "x < 2 ^ (53 + e)")
    case True
    with Suc.prems show ?thesis by simp
  next
    case False
    with Suc.prems have r: "double_exponent fuel (Suc e) x = Some e'" by simp
    from Suc.IH [OF r] have a: "Suc e \<le> e'" "x < 2 ^ (53 + e')" "Suc e < e' \<longrightarrow> 2 ^ (52 + e') \<le> x"
      by simp_all
    have "2 ^ (52 + e') \<le> x"
    proof (cases "Suc e < e'")
      case True with a show ?thesis by simp
    next
      case False
      with a have "e' = Suc e" by simp
      with \<open>\<not> x < 2 ^ (53 + e)\<close> show ?thesis by simp
    qed
    with a show ?thesis by simp
  qed
qed

lemma double_exponent_hit:
  "x < 2 ^ (53 + e) \<Longrightarrow> 0 < fuel \<Longrightarrow> double_exponent fuel e x = Some e"
  by (cases fuel) simp_all

lemma double_exponent_next:
  assumes "\<not> x < 2 ^ (53 + e)" and "x < 2 ^ (54 + e)" and "1 < fuel"
  shows "double_exponent fuel e x = Some (Suc e)"
proof -
  from assms(3) obtain n where "fuel = Suc (Suc n)" by (cases fuel; cases "fuel - 1"; simp)
  with assms(1,2) show ?thesis by simp
qed

lemma below_overflow: "x \<le> 2 ^ 54 \<Longrightarrow> x < double_overflow"
proof -
  have "(2::int) ^ 54 < 2 ^ 1024" by (rule power_strict_increasing) simp_all
  then show "x \<le> 2 ^ 54 \<Longrightarrow> x < double_overflow" by (simp add: double_overflow_def)
qed

lemma to_double_small:
  assumes "0 \<le> x" and "x \<le> 2 ^ 53"
  shows "to_double x = Fin x"
proof (cases "x < 2 ^ 53")
  case True
  then have "double_exponent exponent_range 0 x = Some 0"
    by (simp add: double_exponent_hit exponent_range_def)
  moreover have "x < double_overflow" using assms(2) by (intro below_overflow) simp
  ultimately show ?thesis using assms by (simp add: to_double_def round_magnitude_def)
next
  case False
  with assms have x: "x = 2 ^ 53" by simp
  have "double_exponent exponent_range 0 x = Some (Suc 0)"
    by (rule double_exponent_next) (simp_all add: x exponent_range_def)
  moreover have "x < double_overflow" using assms(2) by (intro below_overflow) simp
  ultimately show ?thesis by (simp add: to_double_def round_magnitude_def x)
qed


lemma to_double_large:
  assumes "2 ^ 53 \<le> x"
  shows "to_double x = PosInf \<or> (\<exists>y. to_double x = Fin y \<and> 2 ^ 53 \<le> y)"
proof (cases "round_magnitude x")
  case None
  with assms show ?thesis by (simp add: to_double_def)
next
  case (Some y)
  then obtain e where e: "double_exponent exponent_range 0 x = Some e"
    by (auto simp: round_magnitude_def split: option.splits)
  from double_exponent_Some [OF e] assms have e1: "0 < e" and lo: "2 ^ (52 + e) \<le> x"
    by (cases e; simp)+
  define q where "q = x div 2 ^ e"
  define q' where "q' = (if 2 * (x mod 2 ^ e) > 2 ^ e \<or> (2 * (x mod 2 ^ e) = 2 ^ e \<and> odd q) then q + 1 else q)"
  have "(2::int) ^ 52 * 2 ^ e div 2 ^ e \<le> x div 2 ^ e"
    using lo by (intro zdiv_mono1) (simp_all add: power_add)
  then have q: "2 ^ 52 \<le> q" by (simp add: q_def)
  then have q': "2 ^ 52 \<le> q'" by (simp add: q'_def)
  have "(2::int) ^ 1 \<le> 2 ^ e" using e1 by (intro power_increasing) simp_all
  then have "(2::int) ^ 52 * 2 \<le> q' * 2 ^ e" using q' by (intro mult_mono) simp_all
  then have big: "2 ^ 53 \<le> q' * 2 ^ e" by simp
  from Some e have "y = q' * 2 ^ e"
    by (auto simp: round_magnitude_def Let_def q'_def q_def split: if_splits)
  with big Some assms show ?thesis by (simp add: to_double_def)
qed

lemma to_double_tie: "to_double 9007199254740995 = Fin 9007199254740996"
proof -
  have "double_exponent exponent_range 0 9007199254740995 = Some (Suc 0)"
    by (rule double_exponent_next) (simp_all add: exponent_range_def)
  moreover have "(9007199254740996::int) < double_overflow" by (intro below_overflow) simp
  ultimately show ?thesis by (simp add: to_double_def round_magnitude_def)
qed

lemma js_lt_add_safe:
  assumes "safe_count a" and "safe_count b" and "safe_count c"
  shows "js_lt (js_add (to_double a) (to_double b)) (to_double c) = (a + b < c)"
proof -
  from assms have d: "to_double a = Fin a" "to_double b = Fin b" "to_double c = Fin c"
    by (simp_all add: safe_count_def to_double_small)
  show ?thesis
  proof (cases "a + b \<le> 2 ^ 53")
    case True
    with assms have "to_double (a + b) = Fin (a + b)"
      by (intro to_double_small) (simp_all add: safe_count_def)
    then show ?thesis by (simp add: d)
  next
    case False
    then have "2 ^ 53 \<le> a + b" by simp
    from to_double_large [OF this] assms(3) False show ?thesis
      by (auto simp: d safe_count_def)
  qed
qed

lemma safe_count_small [simp]: "safe_count 1" "safe_count 7" "safe_count 10" "safe_count 100"
  "safe_count 400" "safe_count 500" "safe_count 19999" "safe_count 20000"
  by (simp_all add: safe_count_def)


lemma canUpload_safe:
  assumes "find_stats user w = Some st" and "\<not> flt (calls w) (StatsFindOne user)"
      and "part_hasByteCount p" and "safe_count (part_byteCount p)"
      and "safe_count (stats_memoryUsed st)" and "safe_count (stats_memoryAllocated st)"
      and "safe_count (stats_apiCallsUsed st)" and "safe_count (stats_apiCallsAllocated st)"
  shows "canUpload flt user p w =
           (if stats_memoryUsed st + part_byteCount p < stats_memoryAllocated st then
              if stats_apiCallsUsed st + 1 < stats_apiCallsAllocated st then Resolved st
              else Rejected ApiLimitReached
            else Rejected MemoryLimitReached,
            record_call (StatsFindOne user) w)"
proof -
  have one: "Fin 1 = to_double 1" by (simp add: to_double_small)
  show ?thesis
    using assms(1,2,3)
    by (simp add: canUpload_def Let_def byteCount_def one
          js_lt_add_safe [OF assms(5,4,6)] js_lt_add_safe [OF assms(7) safe_count_small(1) assms(8)])
qed

lemma ann_canUpload:
  "canUpload no_faults ''ann'' small_part ann_world
     = (Resolved ann_stats, record_call (StatsFindOne ''ann'') ann_world)"
  "canUpload no_faults ''ann'' (small_part\<lparr>part_byteCount := 400\<rparr>) ann_world
     = (Rejected MemoryLimitReached, record_call (StatsFindOne ''ann'') ann_world)"
proof -
  have s: "find_stats ''ann'' ann_world = Some ann_stats"
    by (simp add: find_stats_def ann_world_def ann_stats_def)
  have f: "\<not> no_faults (calls ann_world) (StatsFindOne ''ann'')" by (simp add: no_faults_def)
  show "canUpload no_faults ''ann'' small_part ann_world
     = (Resolved ann_stats, record_call (StatsFindOne ''ann'') ann_world)"
    by (subst canUpload_safe [where flt = no_faults, OF s f]) (simp_all add: small_part_def ann_stats_def)
  show "canUpload no_faults ''ann'' (small_part\<lparr>part_byteCount := 400\<rparr>) ann_world
     = (Rejected MemoryLimitReached, record_call (StatsFindOne ''ann'') ann_world)"
    by (subst canUpload_safe [where flt = no_faults, OF s f]) (simp_all add: small_part_def ann_stats_def)
qed

subsection \<open>Lookups after an update\<close>

lemma find_update_first:
  assumes "\<And>x. p (f x) = p x"
  shows "find p (update_first p f xs) = map_option f (find p xs)"
  using assms by (induction xs) auto

lemma find_stats_record_call [simp]: "find_stats u (record_call c w) = find_stats u w"
  by (simp add: find_stats_def record_call_def)

lemma find_bucket_record_call [simp]: "find_bucket i (record_call c w) = find_bucket i w"
  by (simp add: find_bucket_def record_call_def)

lemma find_stats_stats_inc:
  "find_stats u (stats_inc u dm da w) =
     map_option (\<lambda>s. s\<lparr>stats_memoryUsed := stats_memoryUsed s + dm,
                           stats_apiCallsUsed := stats_apiCallsUsed s + da\<rparr>) (find_stats u w)"
  by (simp add: find_stats_def stats_inc_def find_update_first)

lemma find_bucket_buckets_inc:
  "find_bucket i (buckets_inc i dm w) =
     map_option (\<lambda>b. b\<lparr>bucket_memoryUsed := bucket_memoryUsed b + dm\<rparr>) (find_bucket i w)"
  by (simp add: find_bucket_def buckets_inc_def find_update_first)

lemma find_stats_other [simp]:
  "find_stats u (buckets_inc i dm w) = find_stats u w"
  "find_stats u (gcs_write b k bs md w) = find_stats u w"
  "find_stats u (files_save e w) = find_stats u w"
  "find_stats u (set_public b k v w) = find_stats u w"
  by (simp_all add: find_stats_def buckets_inc_def gcs_write_def files_save_def set_public_def)

lemma find_bucket_other [simp]:
  "find_bucket i (stats_inc u dm da w) = find_bucket i w"
  "find_bucket i (gcs_write b k bs md w) = find_bucket i w"
  "find_bucket i (files_save e w) = find_bucket i w"
  "find_bucket i (set_public b k v w) = find_bucket i w"
  by (simp_all add: find_bucket_def stats_inc_def gcs_write_def files_save_def set_public_def)

lemma ann_simps:
  "find_stats ''ann'' ann_world = Some ann_stats"
  "find_bucket ''webinate-bucket-a'' ann_world = Some ann_bucket"
  "bucket_identifier ann_bucket = ''webinate-bucket-a''"
  by (simp_all add: find_stats_def find_bucket_def ann_world_def ann_stats_def ann_bucket_def)

subsection \<open>Uploads: what the counters are charged\<close>

lemma canUpload_Resolved:
  assumes "fst (canUpload flt user p w) = Resolved st"
  shows "canUpload flt user p w = (Resolved st, record_call (StatsFindOne user) w)"
    and "find_stats user w = Some st"
  using assms by (auto simp: canUpload_def Let_def split: if_splits option.splits)

lemma upload_complete_accounting:
  assumes "\<forall>h. \<not> flt h (BucketsInc (bucket_identifier bucketEntry) (part_byteCount p))"
      and "\<forall>h. \<not> flt h (StatsInc user (part_byteCount p) 1)"
  shows "find_bucket (bucket_identifier bucketEntry) (snd (upload_complete flt ue p bucketEntry user makePublic w))
           = map_option (\<lambda>b. b\<lparr>bucket_memoryUsed := bucket_memoryUsed b + part_byteCount p\<rparr>)
               (find_bucket (bucket_identifier bucketEntry) w)"
    and "find_stats user (snd (upload_complete flt ue p bucketEntry user makePublic w))
           = map_option (\<lambda>s. s\<lparr>stats_memoryUsed := stats_memoryUsed s + part_byteCount p,
                                 stats_apiCallsUsed := stats_apiCallsUsed s + 1\<rparr>)
               (find_stats user w)"
  using assms
  by (simp_all add: upload_complete_def attempt_def registerFile_def Let_def
        find_bucket_buckets_inc find_stats_stats_inc split: prod.splits)

text \<open>
  C1 (as amended). For an upload that passes the quota check and whose stream completes,
  with both \<open>$inc\<close> updates accepted by the store and the bucket's entry stored:
  the bucket's \<open>memoryUsed\<close> and the user's \<open>memoryUsed\<close> each grow by
  \<open>part.byteCount\<close>, the declared count that the quota check used, whatever bytes \<open>bs\<close> the
  stream moved, and the user's \<open>apiCallsUsed\<close> grows by exactly 1.
\<close>

theorem uploadStream_accounting:
  assumes "fst (canUpload flt user p w) = Resolved st"
      and "up_run ue = Completed bs"
      and "\<forall>h. \<not> flt h (BucketsInc (bucket_identifier bucketEntry) (part_byteCount p))"
      and "\<forall>h. \<not> flt h (StatsInc user (part_byteCount p) 1)"
      and "find_bucket (bucket_identifier bucketEntry) w = Some b"
  shows "find_bucket (bucket_identifier bucketEntry) (snd (uploadStream flt ue p bucketEntry user makePublic w))
           = Some (b\<lparr>bucket_memoryUsed := bucket_memoryUsed b + part_byteCount p\<rparr>)
       \<and> find_stats user (snd (uploadStream flt ue p bucketEntry user makePublic w))
           = Some (st\<lparr>stats_memoryUsed := stats_memoryUsed st + part_byteCount p,
                       stats_apiCallsUsed := stats_apiCallsUsed st + 1\<rparr>)"
proof -
  note cu = canUpload_Resolved [OF assms(1)]
  show ?thesis
    by (simp add: uploadStream_def cu(1) assms(2) Let_def
          upload_complete_accounting [OF assms(3,4)] cu(2) assms(5))
qed

theorem uploadStream_accounting_witness:
  "fst (canUpload no_faults ''ann'' small_part ann_world) = Resolved ann_stats
   \<and> find_bucket ''webinate-bucket-a'' (snd (uploadStream no_faults three_bytes small_part ann_bucket ''ann'' True ann_world))
       = Some (ann_bucket\<lparr>bucket_memoryUsed := 110\<rparr>)
   \<and> find_stats ''ann'' (snd (uploadStream no_faults three_bytes small_part ann_bucket ''ann'' True ann_world))
       = Some (ann_stats\<lparr>stats_memoryUsed := 110, stats_apiCallsUsed := 8\<rparr>)"
proof -
  have a: "fst (canUpload no_faults ''ann'' small_part ann_world) = Resolved ann_stats"
    by (simp add: ann_canUpload)
  have b: "up_run three_bytes = Completed [1, 2, 3]" by (simp add: three_bytes_def)
  have c: "\<forall>h. \<not> no_faults h (BucketsInc (bucket_identifier ann_bucket) (part_byteCount small_part))"
    by (simp add: no_faults_def)
  have d: "\<forall>h. \<not> no_faults h (StatsInc ''ann'' (part_byteCount small_part) 1)"
    by (simp add: no_faults_def)
  have e: "find_bucket (bucket_identifier ann_bucket) ann_world = Some ann_bucket"
    by (simp add: ann_simps)
  from uploadStream_accounting [where flt = no_faults and makePublic = True, OF a b c d e] a
  show ?thesis by (simp add: ann_simps small_part_def ann_stats_def ann_bucket_def)
qed

text \<open>
  C1 as stated fails: a part that declares 10 bytes and whose stream moves the 3 bytes
  \<open>[1, 2, 3]\<close> (the object written holds these 3 bytes) is charged 10, not 3, on the
  bucket and on the user's stats.
\<close>

theorem uploadStream_transferred_counterexample:
  "fst (canUpload no_faults ''ann'' small_part ann_world) = Resolved ann_stats
   \<and> up_run three_bytes = Completed [1, 2, 3]
   \<and> find_stats ''ann'' (snd (uploadStream no_faults three_bytes small_part ann_bucket ''ann'' True ann_world))
       \<noteq> Some (ann_stats\<lparr>stats_memoryUsed := stats_memoryUsed ann_stats + int (length [1, 2, 3 :: nat]),
                          stats_apiCallsUsed := stats_apiCallsUsed ann_stats + 1\<rparr>)
   \<and> find_bucket ''webinate-bucket-a'' (snd (uploadStream no_faults three_bytes small_part ann_bucket ''ann'' True ann_world))
       \<noteq> Some (ann_bucket\<lparr>bucket_memoryUsed := bucket_memoryUsed ann_bucket + int (length [1, 2, 3 :: nat])\<rparr>)
   \<and> map stats_memoryUsed (stats (snd (uploadStream no_faults three_bytes small_part ann_bucket ''ann'' True ann_world))) = [110]
   \<and> map bucket_memoryUsed (buckets (snd (uploadStream no_faults three_bytes small_part ann_bucket ''ann'' True ann_world))) = [110]
   \<and> map_option obj_data
         (find_object ''webinate-bucket-a'' ''f2''
            (snd (uploadStream no_faults three_bytes small_part ann_bucket ''ann'' True ann_world)))
       = Some [1, 2, 3]"
proof -
  have u: "uploadStream no_faults three_bytes small_part ann_bucket ''ann'' True ann_world
      = upload_complete no_faults three_bytes small_part ann_bucket ''ann'' True
          (gcs_write ''webinate-bucket-a'' ''f2'' [1, 2, 3] None
             (record_call (GcsFileWrite ''webinate-bucket-a'' ''f2'' False)
                (record_call (StatsFindOne ''ann'') ann_world)))"
    by (simp add: uploadStream_def ann_canUpload three_bytes_def Let_def ann_simps)
  show ?thesis
  proof (intro conjI)
    show "fst (canUpload no_faults ''ann'' small_part ann_world) = Resolved ann_stats"
      by (simp add: ann_canUpload)
  qed (unfold u, simp_all add: upload_complete_def registerFile_def attempt_def
        no_faults_def three_bytes_def small_part_def ann_world_def ann_stats_def ann_bucket_def
        ann_object_def find_object_def
        find_stats_def find_bucket_def record_call_def gcs_write_def buckets_inc_def stats_inc_def
        files_save_def set_public_def Let_def)
qed

subsection \<open>The quota check\<close>

text \<open>
  C2 (as amended). For a user whose stats document is found (the lookup itself not
  failing), \<open>canUpload\<close> rejects with the memory error exactly when the test
  \<open>memoryUsed + byteCount < memoryAllocated\<close> of line 633, computed on doubles, is false;
  with the API-call error exactly when that test is true and the test
  \<open>apiCallsUsed + 1 < apiCallsAllocated\<close> is false; and resolves with the document
  otherwise. For counts between 0 and \<open>2 ^ 53\<close> these are the comparisons of the
  integers: the memory error exactly when \<open>memoryUsed + byteCount \<ge> memoryAllocated\<close>,
  the API-call error exactly when \<open>memoryUsed + byteCount < memoryAllocated\<close> and
  \<open>apiCallsUsed + 1 \<ge> apiCallsAllocated\<close>. A part without a \<open>byteCount\<close> gets the
  memory error. Whenever \<open>canUpload\<close> rejects, \<open>uploadStream\<close> rejects with the same
  error and leaves the store as it was, the log holding the one \<open>findOne\<close>: no counter
  is changed and nothing is written to the remote store.
\<close>

theorem canUpload_quota_check:
  assumes "find_stats user w = Some st" and "\<not> flt (calls w) (StatsFindOne user)"
  shows "(fst (canUpload flt user p w) = Rejected MemoryLimitReached
            \<longleftrightarrow> \<not> js_lt (js_add (to_double (stats_memoryUsed st)) (byteCount p))
                       (to_double (stats_memoryAllocated st)))
       \<and> (fst (canUpload flt user p w) = Rejected ApiLimitReached
            \<longleftrightarrow> js_lt (js_add (to_double (stats_memoryUsed st)) (byteCount p))
                     (to_double (stats_memoryAllocated st))
                \<and> \<not> js_lt (js_add (to_double (stats_apiCallsUsed st)) (Fin 1))
                         (to_double (stats_apiCallsAllocated st)))
       \<and> (fst (canUpload flt user p w) = Resolved st
            \<longleftrightarrow> js_lt (js_add (to_double (stats_memoryUsed st)) (byteCount p))
                     (to_double (stats_memoryAllocated st))
                \<and> js_lt (js_add (to_double (stats_apiCallsUsed st)) (Fin 1))
                       (to_double (stats_apiCallsAllocated st)))
       \<and> (part_hasByteCount p \<and> safe_count (part_byteCount p)
            \<and> safe_count (stats_memoryUsed st) \<and> safe_count (stats_memoryAllocated st)
            \<and> safe_count (stats_apiCallsUsed st) \<and> safe_count (stats_apiCallsAllocated st) \<longrightarrow>
              (fst (canUpload flt user p w) = Rejected MemoryLimitReached
                 \<longleftrightarrow> stats_memoryUsed st + part_byteCount p \<ge> stats_memoryAllocated st)
            \<and> (fst (canUpload flt user p w) = Rejected ApiLimitReached
                 \<longleftrightarrow> stats_memoryUsed st + part_byteCount p < stats_memoryAllocated st
                     \<and> stats_apiCallsUsed st + 1 \<ge> stats_apiCallsAllocated st)
            \<and> (fst (canUpload flt user p w) = Resolved st
                 \<longleftrightarrow> stats_memoryUsed st + part_byteCount p < stats_memoryAllocated st
                     \<and> stats_apiCallsUsed st + 1 < stats_apiCallsAllocated st))
       \<and> (\<not> part_hasByteCount p \<longrightarrow> fst (canUpload flt user p w) = Rejected MemoryLimitReached)
       \<and> (\<forall>err. fst (canUpload flt user p w) = Rejected err \<longrightarrow>
             uploadStream flt ue p bucketEntry user makePublic w
               = (Rejected err, w\<lparr>calls := calls w @ [StatsFindOne user]\<rparr>))"
proof -
  have doubles: "(fst (canUpload flt user p w) = Rejected MemoryLimitReached
            \<longleftrightarrow> \<not> js_lt (js_add (to_double (stats_memoryUsed st)) (byteCount p))
                       (to_double (stats_memoryAllocated st)))
       \<and> (fst (canUpload flt user p w) = Rejected ApiLimitReached
            \<longleftrightarrow> js_lt (js_add (to_double (stats_memoryUsed st)) (byteCount p))
                     (to_double (stats_memoryAllocated st))
                \<and> \<not> js_lt (js_add (to_double (stats_apiCallsUsed st)) (Fin 1))
                         (to_double (stats_apiCallsAllocated st)))
       \<and> (fst (canUpload flt user p w) = Resolved st
            \<longleftrightarrow> js_lt (js_add (to_double (stats_memoryUsed st)) (byteCount p))
                     (to_double (stats_memoryAllocated st))
                \<and> js_lt (js_add (to_double (stats_apiCallsUsed st)) (Fin 1))
                       (to_double (stats_apiCallsAllocated st)))"
    using assms by (simp add: canUpload_def Let_def)
  have ints: "(fst (canUpload flt user p w) = Rejected MemoryLimitReached
                 \<longleftrightarrow> stats_memoryUsed st + part_byteCount p \<ge> stats_memoryAllocated st)
            \<and> (fst (canUpload flt user p w) = Rejected ApiLimitReached
                 \<longleftrightarrow> stats_memoryUsed st + part_byteCount p < stats_memoryAllocated st
                     \<and> stats_apiCallsUsed st + 1 \<ge> stats_apiCallsAllocated st)
            \<and> (fst (canUpload flt user p w) = Resolved st
                 \<longleftrightarrow> stats_memoryUsed st + part_byteCount p < stats_memoryAllocated st
                     \<and> stats_apiCallsUsed st + 1 < stats_apiCallsAllocated st)"
    if "part_hasByteCount p" "safe_count (part_byteCount p)"
       "safe_count (stats_memoryUsed st)" "safe_count (stats_memoryAllocated st)"
       "safe_count (stats_apiCallsUsed st)" "safe_count (stats_apiCallsAllocated st)"
    by (simp add: canUpload_safe [where flt = flt, OF assms that])
  have nan: "fst (canUpload flt user p w) = Rejected MemoryLimitReached" if "\<not> part_hasByteCount p"
  proof -
    have "js_add (to_double (stats_memoryUsed st)) NaN = NaN"
      by (cases "to_double (stats_memoryUsed st)") simp_all
    with assms that show ?thesis by (simp add: canUpload_def Let_def byteCount_def)
  qed
  have same: "uploadStream flt ue p bucketEntry user makePublic w
               = (Rejected err, w\<lparr>calls := calls w @ [StatsFindOne user]\<rparr>)"
    if "fst (canUpload flt user p w) = Rejected err" for err
    using that assms by (auto simp: canUpload_def uploadStream_def record_call_def Let_def split: if_splits)
  from doubles ints nan same show ?thesis by blast
qed

theorem canUpload_quota_check_witness:
  "fst (canUpload no_faults ''ann'' (small_part\<lparr>part_byteCount := 400\<rparr>) ann_world) = Rejected MemoryLimitReached
   \<and> uploadStream no_faults three_bytes (small_part\<lparr>part_byteCount := 400\<rparr>) ann_bucket ''ann'' True ann_world
       = (Rejected MemoryLimitReached, ann_world\<lparr>calls := [StatsFindOne ''ann'']\<rparr>)
   \<and> fst (canUpload no_faults ''ann'' small_part ann_world) = Resolved ann_stats
   \<and> fst (canUpload no_faults ''ann'' (small_part\<lparr>part_hasByteCount := False\<rparr>) ann_world)
       = Rejected MemoryLimitReached"
proof -
  have s: "find_stats ''ann'' ann_world = Some ann_stats"
    by (simp add: ann_simps)
  have f: "\<not> no_faults (calls ann_world) (StatsFindOne ''ann'')"
    by (simp add: no_faults_def)
  have safe: "safe_count (stats_memoryUsed ann_stats) \<and> safe_count (stats_memoryAllocated ann_stats)
      \<and> safe_count (stats_apiCallsUsed ann_stats) \<and> safe_count (stats_apiCallsAllocated ann_stats)"
    by (simp add: ann_stats_def)
  have big: "part_hasByteCount (small_part\<lparr>part_byteCount := 400\<rparr>)
      \<and> safe_count (part_byteCount (small_part\<lparr>part_byteCount := 400\<rparr>))
      \<and> stats_memoryUsed ann_stats + part_byteCount (small_part\<lparr>part_byteCount := 400\<rparr>)
               \<ge> stats_memoryAllocated ann_stats"
    by (simp add: ann_stats_def small_part_def)
  have small: "part_hasByteCount small_part \<and> safe_count (part_byteCount small_part)
      \<and> stats_memoryUsed ann_stats + part_byteCount small_part < stats_memoryAllocated ann_stats
      \<and> stats_apiCallsUsed ann_stats + 1 < stats_apiCallsAllocated ann_stats"
    by (simp add: ann_stats_def small_part_def)
  have none: "\<not> part_hasByteCount (small_part\<lparr>part_hasByteCount := False\<rparr>)" by simp
  note t = canUpload_quota_check [where flt = no_faults and ue = three_bytes
      and bucketEntry = ann_bucket and makePublic = True, OF s f]
  from t [of "small_part\<lparr>part_byteCount := 400\<rparr>"] big safe
  have "fst (canUpload no_faults ''ann'' (small_part\<lparr>part_byteCount := 400\<rparr>) ann_world) = Rejected MemoryLimitReached"
    and "uploadStream no_faults three_bytes (small_part\<lparr>part_byteCount := 400\<rparr>) ann_bucket ''ann'' True ann_world
       = (Rejected MemoryLimitReached, ann_world\<lparr>calls := calls ann_world @ [StatsFindOne ''ann'']\<rparr>)"
    by blast+
  moreover from t [of small_part] small safe
  have "fst (canUpload no_faults ''ann'' small_part ann_world) = Resolved ann_stats" by blast
  moreover from t [of "small_part\<lparr>part_hasByteCount := False\<rparr>"] none
  have "fst (canUpload no_faults ''ann'' (small_part\<lparr>part_hasByteCount := False\<rparr>) ann_world)
       = Rejected MemoryLimitReached" by blast
  ultimately show ?thesis by (simp add: ann_world_def)
qed

text \<open>
  C2 as stated fails: with \<open>memoryUsed = 2 ^ 53\<close>, \<open>byteCount = 3\<close> and
  \<open>memoryAllocated = 2 ^ 53 + 4\<close> the sum of the integers is below the allocation, but
  the sum of the doubles rounds to \<open>2 ^ 53 + 4\<close> and \<open>canUpload\<close> rejects with the
  memory error.
\<close>

theorem canUpload_rounding_counterexample:
  "find_stats ''ann'' (ann_world\<lparr>stats := [huge_stats]\<rparr>) = Some huge_stats
   \<and> \<not> stats_memoryUsed huge_stats + part_byteCount tiny_part \<ge> stats_memoryAllocated huge_stats
   \<and> fst (canUpload no_faults ''ann'' tiny_part (ann_world\<lparr>stats := [huge_stats]\<rparr>))
       = Rejected MemoryLimitReached"
proof -
  have a: "to_double 9007199254740992 = Fin 9007199254740992"
    by (rule to_double_small) simp_all
  have b: "to_double 3 = Fin 3" by (rule to_double_small) simp_all
  have "double_exponent exponent_range 0 9007199254740996 = Some (Suc 0)"
    by (rule double_exponent_next) (simp_all add: exponent_range_def)
  moreover have "(9007199254740996::int) < double_overflow" by (intro below_overflow) simp
  ultimately have c: "to_double 9007199254740996 = Fin 9007199254740996"
    by (simp add: to_double_def round_magnitude_def)
  show ?thesis
    by (simp add: canUpload_def Let_def byteCount_def no_faults_def find_stats_def huge_stats_def
          tiny_part_def small_part_def a b c to_double_tie)
qed

text \<open>
  C9. For a user with no stats document (the lookup itself not failing), \<open>canUpload\<close>
  does not reject at all, with a not-found error or any other: reading \<open>memoryUsed\<close> of
  the null result throws a TypeError inside the callback, and the promises of
  \<open>canUpload\<close> and of \<open>uploadStream\<close> are never settled.
\<close>

theorem canUpload_missing_stats:
  assumes "find_stats user w = None" and "\<not> flt (calls w) (StatsFindOne user)"
  shows "canUpload flt user p w
           = (Unsettled (Some (TypeError ''Cannot read property memoryUsed of null'')),
              record_call (StatsFindOne user) w)
       \<and> uploadStream flt ue p bucketEntry user makePublic w
           = (Unsettled (Some (TypeError ''Cannot read property memoryUsed of null'')),
              record_call (StatsFindOne user) w)
       \<and> (\<forall>err. fst (canUpload flt user p w) \<noteq> Rejected err)
       \<and> (\<forall>err. fst (uploadStream flt ue p bucketEntry user makePublic w) \<noteq> Rejected err)"
  using assms by (simp add: canUpload_def uploadStream_def Let_def)

theorem canUpload_missing_stats_witness:
  "canUpload no_faults ''bob'' small_part ann_world
     = (Unsettled (Some (TypeError ''Cannot read property memoryUsed of null'')),
        record_call (StatsFindOne ''bob'') ann_world)
   \<and> (\<forall>err. fst (uploadStream no_faults three_bytes small_part ann_bucket ''bob'' True ann_world) \<noteq> Rejected err)"
proof -
  have s: "find_stats ''bob'' ann_world = None"
    by (simp add: find_stats_def ann_world_def ann_stats_def)
  have f: "\<not> no_faults (calls ann_world) (StatsFindOne ''bob'')"
    by (simp add: no_faults_def)
  from canUpload_missing_stats [where flt = no_faults and p = small_part and ue = three_bytes
      and bucketEntry = ann_bucket and makePublic = True, OF s f]
  show ?thesis by blast
qed

subsection \<open>Deleting a file: the order of the effects\<close>

lemma bucket_matches_identifier:
  "find (bucket_matches (BucketByIdentifier i)) bs = find (\<lambda>b. bucket_identifier b = i) bs"
  by (induction bs) auto

lemma getIBucket_by_identifier:
  assumes "\<not> flt (calls w) (BucketsFindOne (BucketByIdentifier i))"
  shows "getIBucket flt i None w
           = (Resolved (find_bucket i w), record_call (BucketsFindOne (BucketByIdentifier i)) w)"
  using assms by (simp add: getIBucket_def Let_def find_bucket_def bucket_matches_identifier)

lemma run_steps_log:
  assumes "\<And>c eff w. (c, eff) \<in> set steps \<Longrightarrow> calls (eff w) = calls w"
  shows "prefix (calls (snd (run_steps flt steps w))) (calls w @ map fst steps)
       \<and> prefix (calls w) (calls (snd (run_steps flt steps w)))"
  using assms
proof (induction steps arbitrary: w)
  case Nil
  then show ?case by simp
next
  case (Cons s steps)
  obtain c eff where s: "s = (c, eff)" by (cases s)
  show ?case
  proof (cases "flt (calls w) c")
    case True
    then show ?thesis by (simp add: s record_call_def)
  next
    case False
    have e: "calls (eff (record_call c w)) = calls w @ [c]"
      using Cons.prems [of c eff] by (simp add: s record_call_def)
    have rest: "calls (eff' w') = calls w'" if "(c', eff') \<in> set steps" for c' eff' w'
      using Cons.prems [of c' eff' w'] that by simp
    have "prefix (calls (snd (run_steps flt steps (eff (record_call c w)))))
            (calls (eff (record_call c w)) @ map fst steps)
        \<and> prefix (calls (eff (record_call c w))) (calls (snd (run_steps flt steps (eff (record_call c w)))))"
      by (rule Cons.IH) (rule rest)
    then show ?thesis using False
      by (auto simp: s e dest: append_prefixD)
  qed
qed

lemma spec_steps_keep_log:
  assumes "(c, eff) \<in> set (spec_deleteFile_steps b f)"
  shows "calls (eff w) = calls w"
  using assms
  by (auto simp: spec_deleteFile_steps_def gcs_file_delete_def buckets_inc_def files_remove_def stats_inc_def)

text \<open>
  C3. When the lookup of the owning bucket finds nothing, \<open>deleteFile\<close> rejects with
  "Could not find the bucket" and does nothing else. When it finds the bucket,
  \<open>deleteFile\<close> is the sequence the specification gives, run by \<open>run_steps\<close>: delete the
  remote object, decrement the bucket's \<open>memoryUsed\<close> by \<open>file.size\<close>, remove the file
  entry, decrement the owner's \<open>memoryUsed\<close> by \<open>file.size\<close> and increment
  \<open>apiCallsUsed\<close>. The first step that fails rejects the promise and ends the sequence,
  the effects of the steps before it stay, and the log of calls is a prefix of that
  sequence of calls in that order.
\<close>

theorem deleteFile_ordered_steps:
  assumes "\<not> flt (calls w) (BucketsFindOne (BucketByIdentifier (file_bucketId f)))"
  shows "(find_bucket (file_bucketId f) w = None \<longrightarrow>
            deleteFile flt f w
              = (Rejected (BucketNotFound (file_bucketName f)),
                 record_call (BucketsFindOne (BucketByIdentifier (file_bucketId f))) w))
       \<and> (\<forall>b. find_bucket (file_bucketId f) w = Some b \<longrightarrow>
            deleteFile flt f w
              = spec_deleteFile_result f
                  (run_steps flt (spec_deleteFile_steps b f)
                     (record_call (BucketsFindOne (BucketByIdentifier (file_bucketId f))) w))
          \<and> prefix (calls (snd (deleteFile flt f w)))
               (calls w @ BucketsFindOne (BucketByIdentifier (file_bucketId f))
                          # map fst (spec_deleteFile_steps b f)))"
proof -
  let ?c0 = "BucketsFindOne (BucketByIdentifier (file_bucketId f))"
  note g = getIBucket_by_identifier [where flt = flt, OF assms]
  have none: "find_bucket (file_bucketId f) w = None \<Longrightarrow>
      deleteFile flt f w = (Rejected (BucketNotFound (file_bucketName f)), record_call ?c0 w)"
    by (simp add: deleteFile_def g)
  have some: "deleteFile flt f w
      = spec_deleteFile_result f (run_steps flt (spec_deleteFile_steps b f) (record_call ?c0 w))"
    if "find_bucket (file_bucketId f) w = Some b" for b
    using that
    by (simp add: deleteFile_def g attempt_def spec_deleteFile_steps_def spec_deleteFile_result_def)
  have log: "prefix (calls (snd (deleteFile flt f w))) (calls w @ ?c0 # map fst (spec_deleteFile_steps b f))"
    if "find_bucket (file_bucketId f) w = Some b" for b
  proof -
    have "snd (deleteFile flt f w) = snd (run_steps flt (spec_deleteFile_steps b f) (record_call ?c0 w))"
      by (simp add: some [OF that] spec_deleteFile_result_def split: prod.splits option.splits)
    moreover have "prefix (calls (snd (run_steps flt (spec_deleteFile_steps b f) (record_call ?c0 w))))
        (calls (record_call ?c0 w) @ map fst (spec_deleteFile_steps b f))"
      using run_steps_log [of "spec_deleteFile_steps b f" flt "record_call ?c0 w"] spec_steps_keep_log
      by blast
    ultimately show ?thesis by (simp add: record_call_def)
  qed
  from none some log show ?thesis by blast
qed

theorem deleteFile_ordered_steps_witness:
  "deleteFile (fails_on (FilesRemove 1)) ann_file ann_world
     = (Rejected (FileRemoveFailed ''f1'' (StoreErr (FilesRemove 1))),
        ann_world\<lparr>buckets := [ann_bucket\<lparr>bucket_memoryUsed := 0\<rparr>], objects := [],
                   calls := [BucketsFindOne (BucketByIdentifier ''webinate-bucket-a''),
                             GcsFileDelete ''webinate-bucket-a'' ''f1'',
                             BucketsInc ''webinate-bucket-a'' (- 100),
                             FilesRemove 1]\<rparr>)"
proof -
  have a: "\<not> fails_on (FilesRemove 1) (calls ann_world) (BucketsFindOne (BucketByIdentifier (file_bucketId ann_file)))"
    by (simp add: fails_on_def)
  have b: "find_bucket (file_bucketId ann_file) ann_world = Some ann_bucket"
    by (simp add: find_bucket_def ann_world_def ann_bucket_def ann_file_def)
  from deleteFile_ordered_steps [where flt = "fails_on (FilesRemove 1)", OF a] b
  have "deleteFile (fails_on (FilesRemove 1)) ann_file ann_world
     = spec_deleteFile_result ann_file
         (run_steps (fails_on (FilesRemove 1)) (spec_deleteFile_steps ann_bucket ann_file)
            (record_call (BucketsFindOne (BucketByIdentifier (file_bucketId ann_file))) ann_world))"
    by blast
  then show ?thesis
    by (simp add: spec_deleteFile_result_def spec_deleteFile_steps_def fails_on_def record_call_def
          gcs_file_delete_def buckets_inc_def ann_world_def ann_file_def ann_bucket_def ann_object_def)
qed

subsection \<open>Downloading: the content-encoding table\<close>

lemma accepts_examples:
  "accepts ''gzip'' ''gzip, deflate''"
  "\<not> accepts ''gzip'' ''deflate''"
  "accepts ''deflate'' ''deflate''"
  "\<not> accepts ''gzip'' ''xgzip''"
  "\<not> accepts ''gzip'' ''gzip2''"
  "accepts ''gzip'' ''br;q=1.0, gzip;q=0.8''"
  by (simp_all add: accepts_def word_here_def is_word_char_def)

text \<open>
  C4 (as amended). A failed metadata read answers with status 500 and the error text.
  Otherwise \<open>downloadFile\<close> follows the six rows of the table, gzip tested before
  deflate, as to the header it sets and the transform streams it pipes the read stream
  through: none, with \<open>content-encoding: gzip\<close>, for a compressed object and a client
  accepting gzip; none and no header for a raw object and a client accepting gzip; with
  \<open>content-encoding: deflate\<close>, the unzipper and then the deflater for a compressed
  object, the deflater alone for a raw one, when the client accepts deflate and not gzip;
  no header, and the unzipper for a compressed object, none for a raw one, when it accepts
  neither. At most two stages are applied, and two exactly in the row "stored compressed,
  client accepts deflate and not gzip".
\<close>

theorem downloadFile_decision_table:
  "(flt (calls w) (GcsFileGetMetadata (file_bucketId file) (file_identifier file)) \<longrightarrow>
      fst (downloadFile flt h file w)
        = SendError 500 (StoreErr (GcsFileGetMetadata (file_bucketId file) (file_identifier file))))
   \<and> (\<not> flt (calls w) (GcsFileGetMetadata (file_bucketId file) (file_identifier file)) \<longrightarrow>
       (\<forall>ob. find_object (file_bucketId file) (file_identifier file) w = Some ob \<longrightarrow>
          fst (downloadFile flt h file w)
            = (case spec_download_table (obj_metadata ob = Some True)
                      (client_of (case h of None \<Rightarrow> [] | Some s \<Rightarrow> s)) of
                 (header, stages) \<Rightarrow> Piped header stages)
          \<and> length (stages_of (fst (downloadFile flt h file w))) \<le> 2
          \<and> (length (stages_of (fst (downloadFile flt h file w))) = 2
               \<longleftrightarrow> obj_metadata ob = Some True
                   \<and> client_of (case h of None \<Rightarrow> [] | Some s \<Rightarrow> s) = AcceptsDeflate)))"
  by (auto simp: downloadFile_def Let_def client_of_def split: option.splits)

theorem downloadFile_decision_table_witness:
  "fst (downloadFile no_faults (Some ''gzip, deflate'') ann_file ann_world) = Piped (Some ''gzip'') []
   \<and> fst (downloadFile (fails_on (GcsFileGetMetadata ''webinate-bucket-a'' ''f1'')) (Some ''gzip'') ann_file ann_world)
     = SendError 500 (StoreErr (GcsFileGetMetadata ''webinate-bucket-a'' ''f1''))"
proof -
  have a: "\<not> no_faults (calls ann_world) (GcsFileGetMetadata (file_bucketId ann_file) (file_identifier ann_file))"
    by (simp add: no_faults_def)
  have b: "find_object (file_bucketId ann_file) (file_identifier ann_file) ann_world = Some ann_object"
    by (simp add: find_object_def ann_world_def ann_object_def ann_file_def)
  have c: "fails_on (GcsFileGetMetadata ''webinate-bucket-a'' ''f1'') (calls ann_world)
             (GcsFileGetMetadata (file_bucketId ann_file) (file_identifier ann_file))"
    by (simp add: fails_on_def ann_file_def)
  have d: "client_of ''gzip, deflate'' = AcceptsGzip"
    by (simp add: client_of_def accepts_examples)
  from downloadFile_decision_table [of no_faults ann_world ann_file "Some ''gzip, deflate''"] a b
  have "fst (downloadFile no_faults (Some ''gzip, deflate'') ann_file ann_world)
         = (case spec_download_table (obj_metadata ann_object = Some True) (client_of ''gzip, deflate'') of
              (header, stages) \<Rightarrow> Piped header stages)"
    by simp
  moreover from downloadFile_decision_table [of "fails_on (GcsFileGetMetadata ''webinate-bucket-a'' ''f1'')" ann_world ann_file "Some ''gzip''"] c
  have "fst (downloadFile (fails_on (GcsFileGetMetadata ''webinate-bucket-a'' ''f1'')) (Some ''gzip'') ann_file ann_world)
         = SendError 500 (StoreErr (GcsFileGetMetadata (file_bucketId ann_file) (file_identifier ann_file)))"
    by blast
  ultimately show ?thesis by (simp add: d ann_object_def ann_file_def)
qed

text \<open>
  C4 as stated fails on "at most one transcoding stage": the read stream of an object
  stored compressed, asked for by a client that accepts deflate only, is piped through
  the unzipper and then through the deflater.
\<close>

theorem downloadFile_two_stages_counterexample:
  "find_object ''webinate-bucket-a'' ''f1'' ann_world = Some ann_object
   \<and> obj_metadata ann_object = Some True
   \<and> fst (downloadFile no_faults (Some ''deflate'') ann_file ann_world)
       = Piped (Some ''deflate'') [Unzipper, Deflater]
   \<and> \<not> length (stages_of (fst (downloadFile no_faults (Some ''deflate'') ann_file ann_world))) \<le> 1"
  by (simp add: downloadFile_def Let_def no_faults_def find_object_def ann_world_def
        ann_object_def ann_file_def accepts_examples record_call_def)

subsection \<open>Deleting a file, callback by callback\<close>

text \<open>
  The task of a file deletion, its five callbacks run with no other callback in between,
  is \<open>deleteFile\<close>.
\<close>

lemma file_task_deleteFile:
  "(case file_start f w of (t, w1) \<Rightarrow> run_events (\<lambda>e. file_callback flt) [e1, e2, e3, e4, e5] t w1)
     = (case deleteFile flt f w of (r, w') \<Rightarrow> (FileDone r, w'))"
  by (auto simp: file_start_def deleteFile_def getIBucket_def attempt_def record_call_def Let_def
        gcs_file_delete_def buckets_inc_def files_remove_def stats_inc_def
        split: option.splits)

subsection \<open>Batch removal: the callbacks of the file deletions\<close>























subsection \<open>Deleting a bucket: what holds at every callback\<close>















subsection \<open>Deleting a bucket: the callbacks that end it\<close>















subsection \<open>Deleting a bucket: the order of the steps\<close>




subsection \<open>Removing buckets when a cursor over files fails\<close>

lemma stuck_callback:
  "stuck t \<Longrightarrow> stuck (fst (bucket_callback (fails_on FilesToArray) i t w))"
  by (induction t rule: stuck.induct) (simp_all add: fails_on_def)

lemma stuck_start:
  "\<not> blank (bucket_identifier b) \<Longrightarrow>
   stuck (fst (bucket_start b w)) \<and> buckets (snd (bucket_start b w)) = buckets w"
  by (simp add: bucket_start_def files_start_by_bucket_def files_start_def record_call_def)

lemma stuck_start_all:
  "list_all (\<lambda>b. \<not> blank (bucket_identifier b)) bs \<Longrightarrow>
   list_all stuck (fst (start_all bucket_start bs w))"
proof (induction bs arbitrary: w)
  case Nil
  then show ?case by simp
next
  case (Cons b bs)
  obtain t w1 where s: "bucket_start b w = (t, w1)" by (cases "bucket_start b w")
  obtain ts w2 where r: "start_all bucket_start bs w1 = (ts, w2)" by (cases "start_all bucket_start bs w1")
  have "stuck t" using stuck_start [of b w] Cons.prems s by simp
  moreover have "list_all stuck ts" using Cons.IH [of w1] Cons.prems r by simp
  ultimately show ?case by (simp add: s r)
qed

lemma stuck_not_counted:
  "stuck t \<Longrightarrow> (case bucket_done t of Some r \<Rightarrow> item_done l (ident_of ident r) b | None \<Rightarrow> b) = b"
  by (induction t rule: stuck.induct) (simp_all add: item_done_def)

lemma stuck_settle_started:
  "list_all stuck ts \<Longrightarrow>
   foldl (\<lambda>b t. case bucket_done t of Some r \<Rightarrow> item_done l (ident_of ident r) b | None \<Rightarrow> b) b0 ts = b0"
  by (induction ts arbitrary: b0) (simp_all add: stuck_not_counted)

lemma stuck_batch_callback:
  assumes "list_all stuck ts"
  shows "list_all stuck (fst (fst (batch_callback bucket_done ident (bucket_callback (fails_on FilesToArray) e) l i ts b w)))
       \<and> snd (fst (batch_callback bucket_done ident (bucket_callback (fails_on FilesToArray) e) l i ts b w)) = b"
proof (cases "i < length ts \<and> bucket_done (ts ! i) = None")
  case False
  then show ?thesis using assms by (auto simp: batch_callback_def split: option.splits)
next
  case True
  obtain t w1 where s: "bucket_callback (fails_on FilesToArray) e (ts ! i) w = (t, w1)"
    by (cases "bucket_callback (fails_on FilesToArray) e (ts ! i) w")
  have "stuck (ts ! i)" using assms True by (simp add: list_all_length)
  then have st: "stuck t" using stuck_callback [of "ts ! i" e w] s by simp
  have "list_all stuck (ts[i := t])"
    using assms st by (auto simp: list_all_iff dest: set_update_subset_insert [THEN subsetD])
  then show ?thesis
    using True s stuck_not_counted [OF st] by (simp add: batch_callback_def)
qed

lemma cursor_inv_callback:
  assumes "cursor_inv q w0 t w"
      and "filter (bucket_matches q) (buckets w0) \<noteq> []"
      and "list_all (\<lambda>b. \<not> blank (bucket_identifier b)) (filter (bucket_matches q) (buckets w0))"
  shows "cursor_inv q w0 (fst (buckets_callback (fails_on FilesToArray) e t w))
           (snd (buckets_callback (fails_on FilesToArray) e t w))"
proof (cases t)
  case (FindBuckets n q')
  then show ?thesis using assms(1) by (simp add: fails_on_def record_call_def)
next
  case (ReadBuckets n q')
  have q: "q' = q" "buckets w = buckets w0" using assms(1) ReadBuckets by simp_all
  obtain ts w1 where s: "start_all bucket_start (filter (bucket_matches q) (buckets w0)) w = (ts, w1)"
    by (cases "start_all bucket_start (filter (bucket_matches q) (buckets w0)) w")
  have st: "list_all stuck ts" using stuck_start_all [OF assms(3), of w] s by simp
  have b0: "settle_started bucket_done bucket_identifier l ts = batch0" for l
    using stuck_settle_started [OF st] by (simp add: settle_started_def)
  show ?thesis
    using ReadBuckets q s st assms(2) by (simp add: fails_on_def Let_def b0 batch0_def)
next
  case (DeleteBuckets ts b l)
  then have st: "list_all stuck ts" and b: "b = batch0" using assms(1) by simp_all
  show ?thesis
    using DeleteBuckets stuck_batch_callback [OF st, of bucket_identifier "snd e" l "fst e" b w] b
    by (auto simp: batch0_def split: prod.splits)
next
  case (BucketsDone r)
  then show ?thesis using assms(1) by simp
qed

lemma cursor_inv_run:
  assumes "filter (bucket_matches q) (buckets w0) \<noteq> []"
      and "list_all (\<lambda>b. \<not> blank (bucket_identifier b)) (filter (bucket_matches q) (buckets w0))"
  shows "cursor_inv q w0 t w \<Longrightarrow>
         cursor_inv q w0 (fst (run_events (buckets_callback (fails_on FilesToArray)) sched t w))
           (snd (run_events (buckets_callback (fails_on FilesToArray)) sched t w))"
proof (induction sched arbitrary: t w)
  case Nil
  then show ?case by simp
next
  case (Cons e es)
  obtain t1 w1 where s: "buckets_callback (fails_on FilesToArray) e t w = (t1, w1)"
    by (cases "buckets_callback (fails_on FilesToArray) e t w")
  have "cursor_inv q w0 t1 w1"
    using cursor_inv_callback [OF Cons.prems assms, of e] s by simp
  then have "cursor_inv q w0 (fst (run_events (buckets_callback (fails_on FilesToArray)) es t1 w1))
           (snd (run_events (buckets_callback (fails_on FilesToArray)) es t1 w1))"
    by (rule Cons.IH)
  then show ?case by (simp add: s)
qed

lemma cursor_inv_outcome: "cursor_inv q w0 t w \<Longrightarrow> buckets_outcome t = Unsettled None"
  by (cases t) simp_all

text \<open>
  C6, on the code, for every order of the callbacks. \<open>removeBuckets\<close> matches at least
  one bucket, none with a blank identifier, and the cursors over the files of the
  buckets fail (\<open>toArray\<close> calls back with an \<open>err\<close>, which \<open>removeFiles\<close> does not read).
  Then no deletion of a bucket is ever settled, neither handler of the batch runs, and
  the batch is never resolved: every one of its items has failed, and it does not
  resolve with the empty list.
\<close>

theorem removeBuckets_unread_cursor_error:
  assumes "filter (bucket_matches q) (buckets w) \<noteq> []"
      and "list_all (\<lambda>b. \<not> blank (bucket_identifier b)) (filter (bucket_matches q) (buckets w))"
  shows "fst (removeBuckets (fails_on FilesToArray) sched q w) = Unsettled None"
proof -
  have "cursor_inv q w (FindBuckets (length (calls w)) q) (record_call (BucketsFind q) w)"
    by (simp add: record_call_def)
  then have "cursor_inv q w
      (fst (run_events (buckets_callback (fails_on FilesToArray)) sched
             (FindBuckets (length (calls w)) q) (record_call (BucketsFind q) w)))
      (snd (run_events (buckets_callback (fails_on FilesToArray)) sched
             (FindBuckets (length (calls w)) q) (record_call (BucketsFind q) w)))"
    by (rule cursor_inv_run [OF assms])
  then have "buckets_outcome
      (fst (run_events (buckets_callback (fails_on FilesToArray)) sched
             (FindBuckets (length (calls w)) q) (record_call (BucketsFind q) w))) = Unsettled None"
    by (rule cursor_inv_outcome)
  then show ?thesis
    by (simp add: removeBuckets_def buckets_start_def case_prod_beta)
qed

theorem removeBuckets_unread_cursor_error_witness:
  "filter (bucket_matches (BucketsOfUser ''ann'')) (buckets ann_world) \<noteq> []
   \<and> list_all (\<lambda>b. \<not> blank (bucket_identifier b))
        (filter (bucket_matches (BucketsOfUser ''ann'')) (buckets ann_world))
   \<and> fst (removeBuckets (fails_on FilesToArray) [(0, 0), (0, 0), (0, 0), (0, 0), (0, 0)]
             (BucketsOfUser ''ann'') ann_world) = Unsettled None"
  using removeBuckets_unread_cursor_error
          [of "BucketsOfUser ''ann''" ann_world "[(0, 0), (0, 0), (0, 0), (0, 0), (0, 0)]"]
  by (simp add: ann_world_def ann_bucket_def blank_def is_space_def)

subsection \<open>Batches with no identifier\<close>

text \<open>
  C7, evaluated on the code. For an empty list, \<open>removeFilesById\<close> and
  \<open>removeBucketsByName\<close> resolve at once and make no call (the world, log included, is
  unchanged), but the value they resolve with is \<open>undefined\<close>, the value of
  \<open>Promise.resolve()\<close>, and not an empty array.
\<close>

theorem empty_batch_resolves_undefined:
  "removeFilesById flt sched [] user w = (Resolved JsUndefined, w)
   \<and> removeBucketsByName flt sched' [] owner w = (Resolved JsUndefined, w)
   \<and> fst (removeFilesById flt sched [] user w) \<noteq> Resolved (JsArray [])
   \<and> fst (removeBucketsByName flt sched' [] owner w) \<noteq> Resolved (JsArray [])"
  by (simp add: removeFilesById_def removeBucketsByName_def)

subsection \<open>Renaming\<close>

lemma renameFile_increment_fails:
  assumes "flt (calls w) (StatsInc (file_user file) 0 1)"
  shows "renameFile flt file name w
           = (Unsettled (Some (StoreErr (StatsInc (file_user file) 0 1))),
              record_call (StatsInc (file_user file) 0 1) w)"
  using assms by (simp add: renameFile_def incrementAPI_def attempt_def)

text \<open>
  C8. \<open>renameFile\<close> first increments the owner's \<open>apiCallsUsed\<close> by 1 and then attempts
  the update of the name: once the increment has gone through, the log holds exactly
  that one increment followed by the one update, and the owner's \<open>apiCallsUsed\<close> is one
  higher whether the update of the name fails (the promise rejects) or succeeds (it
  resolves with the file).
\<close>

theorem renameFile_charges_once:
  assumes "\<not> flt (calls w) (StatsInc (file_user file) 0 1)"
      and "find_stats (file_user file) w = Some st"
  shows "calls (snd (renameFile flt file name w))
           = calls w @ [StatsInc (file_user file) 0 1, FilesSetName (file_oid file) name]
       \<and> find_stats (file_user file) (snd (renameFile flt file name w))
           = Some (st\<lparr>stats_apiCallsUsed := stats_apiCallsUsed st + 1\<rparr>)
       \<and> (fst (renameFile flt file name w) =
            (if flt (calls w @ [StatsInc (file_user file) 0 1]) (FilesSetName (file_oid file) name)
             then Rejected (StoreErr (FilesSetName (file_oid file) name)) else Resolved file))"
  using assms
  by (auto simp: renameFile_def incrementAPI_def attempt_def record_call_def find_stats_def
        stats_inc_def files_set_name_def find_update_first)

theorem renameFile_charges_once_witness:
  "fst (renameFile (fails_on (FilesSetName 1 ''dog.txt'')) ann_file ''dog.txt'' ann_world)
     = Rejected (StoreErr (FilesSetName 1 ''dog.txt''))
   \<and> calls (snd (renameFile (fails_on (FilesSetName 1 ''dog.txt'')) ann_file ''dog.txt'' ann_world))
     = [StatsInc ''ann'' 0 1, FilesSetName 1 ''dog.txt'']
   \<and> find_stats ''ann'' (snd (renameFile (fails_on (FilesSetName 1 ''dog.txt'')) ann_file ''dog.txt'' ann_world))
     = Some (ann_stats\<lparr>stats_apiCallsUsed := 8\<rparr>)"
proof -
  have a: "\<not> fails_on (FilesSetName 1 ''dog.txt'') (calls ann_world) (StatsInc (file_user ann_file) 0 1)"
    by (simp add: fails_on_def)
  have b: "find_stats (file_user ann_file) ann_world = Some ann_stats"
    by (simp add: ann_simps ann_file_def)
  from renameFile_charges_once [where flt = "fails_on (FilesSetName 1 ''dog.txt'')" and name = "''dog.txt''", OF a b]
  show ?thesis by (simp add: ann_file_def ann_stats_def ann_world_def fails_on_def)
qed

subsection \<open>Publishing at the API-call limit\<close>

text \<open>
  C10. When \<open>withinAPILimit\<close> resolves false for the file's owner, neither
  \<open>makeFilePublic\<close> nor \<open>makeFilePrivate\<close> rejects with the error "You do not have
  enough API calls left": the \<open>catch\<close> handler throws on \<open>new err\<close>, the promise is left
  unsettled, and nothing but the \<open>findOne\<close> of the check has been done.
\<close>

theorem makeFile_limit_never_rejects:
  assumes "withinAPILimit flt (file_user file) w = (Resolved False, w1)"
  shows "makeFilePublic flt file w = (Unsettled (Some (TypeError ''err is not a constructor'')), w1)
       \<and> makeFilePrivate flt file w = (Unsettled (Some (TypeError ''err is not a constructor'')), w1)
       \<and> fst (makeFilePublic flt file w) \<noteq> Rejected NotEnoughApiCalls
       \<and> fst (makeFilePrivate flt file w) \<noteq> Rejected NotEnoughApiCalls
       \<and> w1 = record_call (StatsFindOne (file_user file)) w"
  using assms
  by (auto simp: makeFilePublic_def makeFilePrivate_def catch_reject_new_def withinAPILimit_def Let_def
           split: if_splits option.splits)

theorem makeFile_limit_never_rejects_witness:
  "withinAPILimit no_faults (file_user ann_file) (ann_world\<lparr>stats := [full_stats]\<rparr>)
     = (Resolved False, record_call (StatsFindOne ''ann'') (ann_world\<lparr>stats := [full_stats]\<rparr>))
   \<and> makeFilePublic no_faults ann_file (ann_world\<lparr>stats := [full_stats]\<rparr>)
     = (Unsettled (Some (TypeError ''err is not a constructor'')),
        record_call (StatsFindOne ''ann'') (ann_world\<lparr>stats := [full_stats]\<rparr>))
   \<and> fst (makeFilePrivate no_faults ann_file (ann_world\<lparr>stats := [full_stats]\<rparr>)) \<noteq> Rejected NotEnoughApiCalls"
proof -
  have h: "withinAPILimit no_faults (file_user ann_file) (ann_world\<lparr>stats := [full_stats]\<rparr>)
     = (Resolved False, record_call (StatsFindOne ''ann'') (ann_world\<lparr>stats := [full_stats]\<rparr>))"
    by (simp add: withinAPILimit_def no_faults_def find_stats_def full_stats_def ann_stats_def ann_file_def
          Let_def to_double_small)
  from makeFile_limit_never_rejects [OF h] h show ?thesis by simp
qed

end
